theory Spec2Isabelle
  imports Complex_Main "HOL-Library.AList" "HOL-Library.Log_Nat"
begin

section \<open>Numbers, objectives and the relative score\<close>

text \<open>
  JavaScript numbers are modelled as \<^typ>\<open>real\<close>: the finite numbers, with exact
  arithmetic. Seeds and counts, which the schemas declare as integers, are \<^typ>\<open>int\<close>.
  Every division of the modelled code is guarded (the divisor is a positive number),
  so on finite numbers no \<open>NaN\<close> arises and \<open>isNaN\<close> is the constant \<open>False\<close>.
\<close>

definition isNaN :: "real \<Rightarrow> bool" where
  "isNaN x = False"

text \<open>The union type \<open>'Max' | 'Min'\<close> of \<open>ConfigService.ts\<close>.\<close>

datatype objective = ObjMax | ObjMin

text \<open>\<open>ConfigService.calculateRelativeScore\<close>.\<close>

definition calculateRelativeScore :: "real \<Rightarrow> real \<Rightarrow> objective \<Rightarrow> real" where
  "calculateRelativeScore score bestScore obj =
     (if score \<le> 0 \<or> bestScore \<le> 0 then 0
      else if obj = ObjMin then bestScore / score
      else score / bestScore)"

text \<open>
  The sum of two doubles that are integers, as \<open>+\<close> computes it: the exact sum where
  that is a double, and otherwise the sum rounded to 53 significant bits, a tie going
  to the even significand. (The sums of the model stay below \<open>2^1024\<close>.)
\<close>

definition roundToDouble :: "int \<Rightarrow> int" where
  "roundToDouble x =
     (if \<bar>x\<bar> \<le> 2 ^ 53 then x
      else (let q = 2 ^ nat (bitlen \<bar>x\<bar> - 53);
                m = \<bar>x\<bar> div q;
                r = \<bar>x\<bar> mod q;
                m' = (if q < 2 * r \<or> (2 * r = q \<and> odd m) then m + 1 else m)
            in sgn x * (m' * q)))"

definition jsAdd :: "int \<Rightarrow> int \<Rightarrow> int" where
  "jsAdd a b = roundToDouble (a + b)"

text \<open>\<open>Number.isInteger\<close>, which is what \<open>z.number().int()\<close> tests.\<close>

definition isInteger :: "real \<Rightarrow> bool" where
  "isInteger x = (real_of_int \<lfloor>x\<rfloor> = x)"

section \<open>The configuration file\<close>

text \<open>
  The interface \<open>PahcerConfig\<close>: three optional sections, every field optional.
  A field that is \<open>undefined\<close> is \<open>None\<close>.
\<close>

record general_section =
  version :: "string option"

record problem_section =
  problem_name :: "string option"
  objective :: "objective option"
  score_regex :: "string option"

record test_section =
  start_seed :: "int option"
  end_seed :: "int option"
  threads :: "int option"
  out_dir :: "string option"
  compile_steps :: "string list option"
  test_steps :: "string list option"

record PahcerConfig =
  general :: "general_section option"
  problem :: "problem_section option"
  test :: "test_section option"

text \<open>
  The content of \<open>pahcer_config.toml\<close>. A text that smol-toml parses is identified with
  the document it parses to (\<open>parse\<close> and \<open>stringify\<close> are taken as inverse to each
  other on documents); a text it rejects is kept as it is.
\<close>

datatype config_file = Unparsable string | Toml PahcerConfig

text \<open>
  A JSON value as \<open>JSON.parse\<close> returns it. The pairs of \<open>JObj\<close> are the object's own
  properties in the order \<open>Object.entries\<close> lists them.
\<close>

datatype json =
  JNull | JBool bool | JNum real | JStr string | JArr "json list" | JObj "(string \<times> json) list"

datatype json_file = BadJson | Json json

text \<open>
  The three files \<open>ConfigService\<close> works on: \<open>configPath\<close>, \<open>backupPath\<close> and
  \<open>bestScoresPath\<close>. \<open>None\<close> is a file that does not exist. The file system has no
  fault other than a missing file: a read or a copy fails exactly when its source
  does not exist, and a write succeeds.
\<close>

record config_fs =
  configFile :: "config_file option"
  backupFile :: "config_file option"
  bestScoresFile :: "json_file option"

definition emptyConfig :: PahcerConfig where
  "emptyConfig = \<lparr>general = None, problem = None, test = None\<rparr>"

definition emptyTest :: test_section where
  "emptyTest = \<lparr>start_seed = None, end_seed = None, threads = None, out_dir = None,
     compile_steps = None, test_steps = None\<rparr>"

text \<open>\<open>ConfigService.getConfig\<close>: a failed read or parse is caught and yields \<open>{}\<close>.\<close>

definition getConfig :: "config_fs \<Rightarrow> PahcerConfig" where
  "getConfig fs = (case configFile fs of Some (Toml c) \<Rightarrow> c | _ \<Rightarrow> emptyConfig)"

text \<open>\<open>ConfigService.backupConfig\<close> and \<open>restoreConfig\<close>: the flag is the returned boolean.\<close>

definition backupConfig :: "config_fs \<Rightarrow> bool \<times> config_fs" where
  "backupConfig fs =
     (case configFile fs of
        None \<Rightarrow> (False, fs)
      | Some content \<Rightarrow> (True, fs\<lparr>backupFile := Some content\<rparr>))"

definition restoreConfig :: "config_fs \<Rightarrow> bool \<times> config_fs" where
  "restoreConfig fs =
     (case backupFile fs of
        None \<Rightarrow> (False, fs)
      | Some content \<Rightarrow> (True, fs\<lparr>configFile := Some content\<rparr>))"

text \<open>
  \<open>ConfigService.updateConfigForTest\<close>: back up (the result is not looked at), read,
  spread the current configuration and its \<open>test\<close> section, set the two seed fields
  (\<open>end_seed\<close> is a sum of doubles), write. In this file system nothing of the \<open>try\<close>
  block throws, so it returns \<open>true\<close>.
\<close>

definition updateConfigForTest :: "int \<Rightarrow> int \<Rightarrow> config_fs \<Rightarrow> bool \<times> config_fs" where
  "updateConfigForTest testCaseCount startSeed fs =
     (let fs1 = snd (backupConfig fs);
          currentConfig = getConfig fs1;
          currentTest = (case test currentConfig of None \<Rightarrow> emptyTest | Some t \<Rightarrow> t);
          updatedConfig = currentConfig\<lparr>test :=
            Some (currentTest\<lparr>start_seed := Some startSeed,
                              end_seed := Some (jsAdd startSeed testCaseCount)\<rparr>)\<rparr>
      in (True, fs1\<lparr>configFile := Some (Toml updatedConfig)\<rparr>))"

text \<open>\<open>ConfigService.getObjective\<close>: \<open>config.problem?.objective || 'Max'\<close>.\<close>

definition getObjective :: "config_fs \<Rightarrow> objective" where
  "getObjective fs =
     (case problem (getConfig fs) of
        None \<Rightarrow> ObjMax
      | Some p \<Rightarrow> (case objective p of None \<Rightarrow> ObjMax | Some ob \<Rightarrow> ob))"

section \<open>The best-score table\<close>

text \<open>
  \<open>parseInt(s, 10)\<close>: leading white space is skipped, one sign is read, and the longest
  run of decimal digits that follows is the value; with no digit the result is \<open>NaN\<close>,
  here \<open>None\<close>. Strings are byte strings, so the white space is the ASCII one (tab,
  line feed, vertical tab, form feed, carriage return, space), and the value is the
  exact integer, not its rounding to a double.
\<close>

definition isStrWhiteSpaceChar :: "char \<Rightarrow> bool" where
  "isStrWhiteSpaceChar c =
     (c \<in> set [CHR 0x20, CHR 0x09, CHR 0x0A, CHR 0x0B, CHR 0x0C, CHR 0x0D])"

definition isDecimalDigit :: "char \<Rightarrow> bool" where
  "isDecimalDigit c = (c \<in> set ''0123456789'')"

definition digitValue :: "char \<Rightarrow> nat" where
  "digitValue c = of_char c - 48"

definition parseInt :: "string \<Rightarrow> int option" where
  "parseInt inputString =
     (let s = dropWhile isStrWhiteSpaceChar inputString;
          sgn = (case s of [] \<Rightarrow> 1 | c # _ \<Rightarrow> if c = CHR ''-'' then - 1 else (1::int));
          s' = (case s of [] \<Rightarrow> s | c # r \<Rightarrow> if c = CHR ''-'' \<or> c = CHR ''+'' then r else s);
          z = takeWhile isDecimalDigit s'
      in if z = [] then None
         else Some (sgn * int (foldl (\<lambda>a c. 10 * a + digitValue c) 0 z)))"

text \<open>\<open>String(i)\<close> for an array index \<open>i\<close>: its decimal digits.\<close>

function stringOfNat :: "nat \<Rightarrow> string" where
  "stringOfNat n =
     (if n < 10 then [char_of (48 + n)]
      else stringOfNat (n div 10) @ [char_of (48 + n mod 10)])"
  by pat_completeness auto
termination
  by (relation "measure (\<lambda>n. n)") auto

declare stringOfNat.simps [simp del]

text \<open>
  \<open>Object.entries(v)\<close>: \<open>None\<close> is the \<open>TypeError\<close> it throws on \<open>null\<close>. A number or a
  boolean has no own property, a string and an array have their indices.
\<close>

definition objectEntries :: "json \<Rightarrow> (string \<times> json) list option" where
  "objectEntries v =
     (case v of
        JNull \<Rightarrow> None
      | JBool _ \<Rightarrow> Some []
      | JNum _ \<Rightarrow> Some []
      | JStr s \<Rightarrow> Some (map (\<lambda>(i, c). (stringOfNat i, JStr [c])) (enumerate 0 s))
      | JArr xs \<Rightarrow> Some (map (\<lambda>(i, x). (stringOfNat i, x)) (enumerate 0 xs))
      | JObj kvs \<Rightarrow> Some kvs)"

text \<open>\<open>Record<number, number>\<close>: a table from seeds to scores.\<close>

type_synonym bestScores = "int \<rightharpoonup> real"

text \<open>
  The body of the loop of \<open>getBestScores\<close>:
  \<^verbatim>\<open>const seed = parseInt(seedStr, 10);
  if (!isNaN(seed) && typeof score === 'number') { result[seed] = score; }\<close>
\<close>

definition bestScoresStep :: "bestScores \<Rightarrow> string \<times> json \<Rightarrow> bestScores" where
  "bestScoresStep result entry =
     (case (parseInt (fst entry), snd entry) of
        (Some seed, JNum score) \<Rightarrow> result(seed \<mapsto> score)
      | _ \<Rightarrow> result)"

text \<open>The exceptions of the model: what a \<open>try\<close> block of the modelled code can throw.\<close>

datatype js_error = ENOENT | SyntaxError | TypeError | ConfigLoadFailed | ValidationError

definition getBestScoresTry :: "config_fs \<Rightarrow> js_error + bestScores" where
  "getBestScoresTry fs =
     (case bestScoresFile fs of
        None \<Rightarrow> Inl ENOENT
      | Some BadJson \<Rightarrow> Inl SyntaxError
      | Some (Json v) \<Rightarrow>
          (case objectEntries v of
             None \<Rightarrow> Inl TypeError
           | Some entries \<Rightarrow> Inr (foldl bestScoresStep Map.empty entries)))"

text \<open>
  \<open>ConfigService.getBestScores\<close>: the \<open>catch\<close> block returns \<open>{}\<close> for \<open>ENOENT\<close> and for
  every other error alike. The result is a sum so that an exception that left the
  function would be visible as \<open>Inl\<close>.
\<close>

definition getBestScores :: "config_fs \<Rightarrow> js_error + bestScores" where
  "getBestScores fs =
     (case getBestScoresTry fs of
        Inl err \<Rightarrow> (if err = ENOENT then Inr Map.empty else Inr Map.empty)
      | Inr result \<Rightarrow> Inr result)"

section \<open>Summaries and their statistics\<close>

text \<open>
  \<open>SummaryCaseRaw\<close> and \<open>SummaryJson\<close> of \<open>types/summary.ts\<close>, with the fields the
  modelled code reads. A \<open>score\<close> that is \<open>null\<close> is \<open>None\<close>. \<open>case_count\<close> is a number,
  which need not be an integer.

  The file is read without any check, so \<open>cases\<close> is what the JSON holds: nothing or a
  falsy value (\<open>None\<close>); an array, whose elements are cases or \<open>null\<close> (\<open>None\<close>); or a
  truthy value that is no array and cannot be iterated (an object, a number, \<open>true\<close>).
  An element that is a number or a string has no \<open>score\<close> and stands as a case with the
  score \<open>null\<close>; a string for \<open>cases\<close> has no case to count and stands as the empty
  array.
\<close>

record SummaryCaseRaw =
  seed :: int
  score :: "real option"
  execution_time :: real
  error_message :: "string option"

datatype cases_value = CasesArray "SummaryCaseRaw option list" | CasesNotIterable

record SummaryJson =
  case_count :: "real option"
  total_score :: "real option"
  max_execution_time :: "real option"
  summary_comment :: "string option"
  wa_seeds :: "int list option"
  cases :: "cases_value option"

text \<open>
  \<open>ScoreAnalysisService.loadConfig\<close>: any exception of the two reads is rethrown as
  \<open>ConfigLoadFailed\<close>. (\<open>getObjective\<close> catches what its own body throws.)
\<close>

definition loadConfig :: "config_fs \<Rightarrow> js_error + (bestScores \<times> objective)" where
  "loadConfig fs =
     (case getBestScores fs of
        Inl err \<Rightarrow> Inl ConfigLoadFailed
      | Inr bestScores \<Rightarrow> Inr (bestScores, getObjective fs))"

text \<open>
  The loop that \<open>calculateExecutionStats\<close>, \<open>enrichExecutionWithRelativeScore\<close> and
  \<open>recalculateAllRelativeScores\<close> each write out, with its accumulators \<open>total\<close> and
  \<open>cnt\<close>:
  \<^verbatim>\<open>if (c.score != null && bestScores[c.seed] !== undefined) {
    total += calculateRelativeScore(c.score, bestScores[c.seed], objective); cnt++; }\<close>
\<close>

definition relativeScoreStep ::
  "bestScores \<Rightarrow> objective \<Rightarrow> real \<times> nat \<Rightarrow> SummaryCaseRaw \<Rightarrow> real \<times> nat" where
  "relativeScoreStep bestScores obj acc c =
     (case (score c, bestScores (seed c)) of
        (Some sc, Some best) \<Rightarrow> (fst acc + calculateRelativeScore sc best obj, snd acc + 1)
      | _ \<Rightarrow> acc)"

definition relativeScoreLoop ::
  "bestScores \<Rightarrow> objective \<Rightarrow> SummaryCaseRaw list \<Rightarrow> real \<times> nat" where
  "relativeScoreLoop bestScores obj cs = foldl (relativeScoreStep bestScores obj) (0, 0) cs"

text \<open>
  \<open>for (const c of cases)\<close> over what the JSON holds: a value that cannot be iterated
  throws a \<open>TypeError\<close>, and so does \<open>c.score\<close> when \<open>c\<close> is \<open>null\<close>. The loop changes nothing
  but its accumulators, so it does not matter at which element it throws.
\<close>

definition relativeScoreLoopTry ::
  "bestScores \<Rightarrow> objective \<Rightarrow> cases_value \<Rightarrow> js_error + real \<times> nat" where
  "relativeScoreLoopTry bestScores obj v =
     (case v of
        CasesNotIterable \<Rightarrow> Inl TypeError
      | CasesArray entries \<Rightarrow>
          (case those entries of
             None \<Rightarrow> Inl TypeError
           | Some cs \<Rightarrow> Inr (relativeScoreLoop bestScores obj cs)))"

text \<open>\<open>cnt ? total / cnt : 0\<close>.\<close>

definition averageOf :: "real \<times> nat \<Rightarrow> real" where
  "averageOf acc = (if snd acc \<noteq> 0 then fst acc / real (snd acc) else 0)"

record ExecutionStats =
  stats_totalCount :: real
  stats_acceptedCount :: real
  stats_averageScore :: real
  stats_averageRelativeScore :: real
  stats_maxExecutionTime :: real

text \<open>
  \<open>ScoreAnalysisService.calculateExecutionStats\<close>. The loop runs only over an array
  (\<open>Array.isArray\<close>), inside a \<open>try\<close> whose \<open>catch\<close> sets the average to 0.
\<close>

definition calculateExecutionStats :: "config_fs \<Rightarrow> SummaryJson \<Rightarrow> ExecutionStats" where
  "calculateExecutionStats fs summaryData =
     (let caseCnt = (case case_count summaryData of None \<Rightarrow> 0 | Some n \<Rightarrow> n);
          avgScore =
            (if caseCnt > 0
             then (case total_score summaryData of None \<Rightarrow> 0 | Some t \<Rightarrow> t) / caseCnt
             else 0);
          avgRel =
            (case (caseCnt > 0, cases summaryData) of
               (True, Some (CasesArray entries)) \<Rightarrow>
                 (case loadConfig fs of
                    Inl err \<Rightarrow> 0
                  | Inr (bestScores, obj) \<Rightarrow>
                      (case relativeScoreLoopTry bestScores obj (CasesArray entries) of
                         Inl err \<Rightarrow> 0
                       | Inr acc \<Rightarrow> averageOf acc))
             | _ \<Rightarrow> 0)
      in \<lparr>stats_totalCount = caseCnt,
          stats_acceptedCount =
            caseCnt - real (length (case wa_seeds summaryData of None \<Rightarrow> [] | Some ws \<Rightarrow> ws)),
          stats_averageScore = (if isNaN avgScore then 0 else avgScore),
          stats_averageRelativeScore = (if isNaN avgRel then 0 else avgRel),
          stats_maxExecutionTime =
            (case max_execution_time summaryData of None \<Rightarrow> 0 | Some t \<Rightarrow> t) * 1000\<rparr>)"

section \<open>The results directory\<close>

datatype TestExecutionStatus = IDLE | RUNNING | COMPLETED | FAILED | CANCELLED

text \<open>
  \<open>TestExecution\<close> as \<open>TestExecutionSchema\<close> infers it. A field that is \<open>null\<close> or
  \<open>undefined\<close> is \<open>None\<close>. The ISO string of \<open>startTime\<close> is identified with the instant
  it denotes, in milliseconds since the epoch (what \<open>new Date(s).getTime()\<close> returns).
  The fields have their TypeScript types, so the two counts are numbers.
\<close>

record TestExecution =
  exec_id :: string
  status :: TestExecutionStatus
  startTime :: "int option"
  comment :: "string option"
  averageScore :: "real option"
  averageRelativeScore :: "real option"
  acceptedCount :: "real option"
  totalCount :: "real option"
  maxExecutionTime :: "real option"

text \<open>
  \<open>TestExecutionSchema.safeParse(execution).success\<close> on a value of this type: what the
  schema asks beyond the types is that the two counts are integers.
\<close>

definition validTestExecution :: "TestExecution \<Rightarrow> bool" where
  "validTestExecution e =
     ((case acceptedCount e of None \<Rightarrow> True | Some n \<Rightarrow> isInteger n) \<and>
      (case totalCount e of None \<Rightarrow> True | Some n \<Rightarrow> isInteger n))"

text \<open>
  The content of \<open>execution_info.json\<close>: a text that is not JSON; a JSON value that is
  falsy or has not the shape of the record (\<open>InfoInvalid\<close>, which the schema rejects);
  or an object with the fields of the record, which the schema accepts when it is
  valid. The content of \<open>summary.json\<close>: a text that is not JSON; a falsy JSON value
  (\<open>null\<close>, \<open>0\<close>, \<open>false\<close>, the empty string), which \<open>if (summaryData)\<close> takes for no
  summary; or a summary. (A truthy value that is no object has none of the fields and
  stands as the summary with no field.) A directory of a run holds the two files,
  each of which may be missing; \<open>case_outputs\<close> is not modelled.
\<close>

datatype info_file = InfoUnparsable | InfoInvalid | InfoRecord TestExecution

datatype summary_file = SummaryUnparsable | SummaryFalsy | SummaryData SummaryJson

record run_dir =
  info :: "info_file option"
  summary :: "summary_file option"

text \<open>
  \<open>resultsDirectory\<close>: the directories of the runs by name, in the order \<open>readdir\<close>
  lists them.
\<close>

type_synonym results = "(string \<times> run_dir) list"

definition infoFileOf :: "results \<Rightarrow> string \<Rightarrow> info_file option" where
  "infoFileOf rs i = (case map_of rs i of None \<Rightarrow> None | Some d \<Rightarrow> info d)"

definition summaryFileOf :: "results \<Rightarrow> string \<Rightarrow> summary_file option" where
  "summaryFileOf rs i = (case map_of rs i of None \<Rightarrow> None | Some d \<Rightarrow> summary d)"

text \<open>\<open>a || b\<close> on strings that may be \<open>null\<close>: the empty string is falsy.\<close>

definition orString :: "string option \<Rightarrow> string option \<Rightarrow> string option" where
  "orString a b = (case a of None \<Rightarrow> b | Some x \<Rightarrow> if x = [] then b else a)"

text \<open>\<open>ExecutionRepository.mergeWithSummary\<close>.\<close>

definition mergeWithSummary :: "config_fs \<Rightarrow> TestExecution \<Rightarrow> SummaryJson \<Rightarrow> TestExecution" where
  "mergeWithSummary fs execution sj =
     (let stats = calculateExecutionStats fs sj
      in execution\<lparr>
           comment := orString (orString (comment execution) (summary_comment sj)) (Some []),
           totalCount := Some (stats_totalCount stats),
           acceptedCount := Some (stats_acceptedCount stats),
           averageScore := Some (stats_averageScore stats),
           averageRelativeScore := Some (stats_averageRelativeScore stats),
           maxExecutionTime := Some (stats_maxExecutionTime stats)\<rparr>)"

text \<open>The record \<open>findById\<close> makes up for a summary without metadata.\<close>

definition synthesized :: "string \<Rightarrow> int \<Rightarrow> TestExecution" where
  "synthesized i now =
     \<lparr>exec_id = i, status = COMPLETED, startTime = Some now, comment = None,
      averageScore = Some 0, averageRelativeScore = Some 0, acceptedCount = None,
      totalCount = None, maxExecutionTime = None\<rparr>"

text \<open>
  \<open>ExecutionRepository.findById\<close>. \<open>readJsonFile\<close> returns \<open>null\<close> for a missing file and
  rethrows every other error, so a text that is not JSON makes \<open>findById\<close> throw
  (\<open>Inl\<close>). \<open>Inr None\<close> is the returned \<open>null\<close>. \<open>now\<close> is the clock.
\<close>

definition findById ::
  "int \<Rightarrow> config_fs \<Rightarrow> results \<Rightarrow> string \<Rightarrow> js_error + TestExecution option" where
  "findById now fs rs i =
     (case infoFileOf rs i of
        Some InfoUnparsable \<Rightarrow> Inl SyntaxError
      | infoData \<Rightarrow>
          (let execution =
                 (case infoData of
                    Some (InfoRecord e) \<Rightarrow> if validTestExecution e then Some e else None
                  | _ \<Rightarrow> None)
           in case summaryFileOf rs i of
                Some SummaryUnparsable \<Rightarrow> Inl SyntaxError
              | summaryData \<Rightarrow>
                  (let execution' =
                     (case summaryData of
                        Some (SummaryData sj) \<Rightarrow>
                          Some (mergeWithSummary fs
                                 (case execution of None \<Rightarrow> synthesized i now | Some e \<Rightarrow> e) sj)
                      | _ \<Rightarrow> execution)
                   in if map_of rs i = None then Inr None else Inr execution')))"

text \<open>
  \<open>ExecutionRepository.save\<close>: \<open>mkdir\<close> with \<open>recursive\<close>; then a record the schema
  rejects makes it throw, and a valid one is written to \<open>execution_info.json\<close>. The
  result is the exception that escapes, if any, and the directory after the call.
\<close>

definition emptyDir :: run_dir where
  "emptyDir = \<lparr>info = None, summary = None\<rparr>"

definition save :: "TestExecution \<Rightarrow> results \<Rightarrow> js_error option \<times> results" where
  "save execution rs =
     (let d = (case map_of rs (exec_id execution) of None \<Rightarrow> emptyDir | Some d \<Rightarrow> d)
      in if \<not> validTestExecution execution
         then (Some ValidationError, AList.update (exec_id execution) d rs)
         else (None,
               AList.update (exec_id execution) (d\<lparr>info := Some (InfoRecord execution)\<rparr>) rs))"

text \<open>
  \<open>ExecutionRepository.findAll\<close>: a directory whose \<open>findById\<close> throws or returns \<open>null\<close>
  is left out; the rest is sorted by \<open>timeB - timeA\<close>, a missing start time counting as
  0. \<open>Array.prototype.sort\<close> is stable, as \<open>sort_key\<close> is.
\<close>

definition timeOf :: "TestExecution \<Rightarrow> int" where
  "timeOf e = (case startTime e of None \<Rightarrow> 0 | Some t \<Rightarrow> t)"

definition findAll :: "int \<Rightarrow> config_fs \<Rightarrow> results \<Rightarrow> TestExecution list" where
  "findAll now fs rs =
     sort_key (\<lambda>e. - timeOf e)
       (concat (map (\<lambda>(i, d). case findById now fs rs i of
                                 Inr (Some execution) \<Rightarrow> [execution]
                               | _ \<Rightarrow> []) rs))"

text \<open>\<open>ExecutionRepository.updateStatus\<close>: a run that is not found is skipped.\<close>

definition updateStatus ::
  "int \<Rightarrow> config_fs \<Rightarrow> string \<Rightarrow> TestExecutionStatus \<Rightarrow> results \<Rightarrow> js_error option \<times> results" where
  "updateStatus now fs i st rs =
     (case findById now fs rs i of
        Inl err \<Rightarrow> (Some err, rs)
      | Inr None \<Rightarrow> (None, rs)
      | Inr (Some execution) \<Rightarrow> save (execution\<lparr>status := st\<rparr>) rs)"

section \<open>Recalculation over the history\<close>

text \<open>
  \<open>ScoreAnalysisService.readSummary\<close>: every failure of the read is \<open>null\<close>. A falsy
  value has no \<open>cases\<close> (\<open>summary?.cases\<close>), so it is passed over like \<open>null\<close>.
\<close>

definition readSummary :: "results \<Rightarrow> string \<Rightarrow> SummaryJson option" where
  "readSummary rs i = (case summaryFileOf rs i of Some (SummaryData sj) \<Rightarrow> Some sj | _ \<Rightarrow> None)"

text \<open>
  The body of the loop of \<open>recalculateAllRelativeScores\<close>; the accumulator is the
  directory as the saves so far left it, and the counter \<open>updated\<close>. The loop over the
  cases stands in no \<open>try\<close>, and neither does \<open>save\<close>: what they throw leaves the
  function.
\<close>

definition recalculateStep ::
  "bestScores \<Rightarrow> objective \<Rightarrow> results \<times> nat \<Rightarrow> TestExecution \<Rightarrow>
     js_error option \<times> results \<times> nat" where
  "recalculateStep bestScores obj acc exe =
     (case readSummary (fst acc) (exec_id exe) of
        None \<Rightarrow> (None, acc)
      | Some sj \<Rightarrow>
          (case cases sj of
             None \<Rightarrow> (None, acc)
           | Some v \<Rightarrow>
               (case relativeScoreLoopTry bestScores obj v of
                  Inl err \<Rightarrow> (Some err, acc)
                | Inr totals \<Rightarrow>
                    (let newAvg = averageOf totals
                     in if \<bar>newAvg - (case averageRelativeScore exe of None \<Rightarrow> 0 | Some a \<Rightarrow> a)\<bar>
                             > 1 / 1000
                        then (case save (exe\<lparr>averageRelativeScore :=
                                           Some (if isNaN newAvg then 0 else newAvg)\<rparr>) (fst acc) of
                                (Some err, rs) \<Rightarrow> (Some err, rs, snd acc)
                              | (None, rs) \<Rightarrow> (None, rs, snd acc + 1))
                        else (None, acc)))))"

text \<open>The loop over the executions: it ends at the first exception.\<close>

fun recalculateLoop ::
  "bestScores \<Rightarrow> objective \<Rightarrow> TestExecution list \<Rightarrow> results \<times> nat \<Rightarrow>
     js_error option \<times> results \<times> nat" where
  "recalculateLoop bestScores obj [] acc = (None, acc)"
| "recalculateLoop bestScores obj (exe # rest) acc =
     (case recalculateStep bestScores obj acc exe of
        (Some err, acc') \<Rightarrow> (Some err, acc')
      | (None, acc') \<Rightarrow> recalculateLoop bestScores obj rest acc')"

text \<open>
  \<open>ScoreAnalysisService.recalculateAllRelativeScores\<close>: the exception that escapes, if
  any, the directory after the call and the number of saves (\<open>updated\<close>, which the
  code prints). When the configuration cannot be loaded it returns at once.
\<close>

definition recalculateAllRelativeScores ::
  "int \<Rightarrow> config_fs \<Rightarrow> results \<Rightarrow> js_error option \<times> results \<times> nat" where
  "recalculateAllRelativeScores now fs rs =
     (case loadConfig fs of
        Inl err \<Rightarrow> (None, rs, 0)
      | Inr (bestScores, obj) \<Rightarrow> recalculateLoop bestScores obj (findAll now fs rs) (rs, 0))"

section \<open>The process manager\<close>

record TestExecutionRequest =
  req_comment :: "string option"
  shuffle :: bool
  freezeBestScores :: bool
  testCaseCount :: int
  startSeed :: int

text \<open>
  \<open>errorMessage\<close> of a \<open>PacherExecutionResult\<close>: the text of \<open>stderr\<close>,
  \<open>Process exited with code N\<close>, or the message of an error.
\<close>

datatype error_message = Stderr string | ExitedWithCode "int option" | Message string

record PacherExecutionResult =
  success :: bool
  exitCode :: "int option"
  stderr :: string
  errorMessage :: "error_message option"

text \<open>
  The state of \<open>ProcessManager\<close>: the map \<open>activeProcesses\<close> from run ids to child
  processes (a child is named by a number), and the children that were sent
  \<open>SIGKILL\<close>, in order. The directories \<open>tools/out\<close> and \<open>tools/out_bak\<close> are not
  modelled.
\<close>

record ProcessManager =
  activeProcesses :: "(string \<times> nat) list"
  sigkilled :: "nat list"

text \<open>\<open>ProcessManager.killProcess\<close>.\<close>

definition killProcess :: "string \<Rightarrow> ProcessManager \<Rightarrow> bool \<times> ProcessManager" where
  "killProcess executionId m =
     (case map_of (activeProcesses m) executionId of
        Some child \<Rightarrow>
          (True, m\<lparr>sigkilled := sigkilled m @ [child],
                   activeProcesses := AList.delete executionId (activeProcesses m)\<rparr>)
      | None \<Rightarrow> (False, m))"

text \<open>
  \<open>ProcessManager.executePacher\<close> up to the point where it waits for the child: the
  directory of the run is made, \<open>initialInfo\<close> is written to \<open>execution_info.json\<close>,
  and the child is spawned and entered in \<open>activeProcesses\<close>. When \<open>spawn\<close> throws, the
  promise is resolved at once with the failure.
\<close>

datatype spawn_result = Spawned nat | SpawnThrew string

definition initialInfo :: "int \<Rightarrow> TestExecutionRequest \<Rightarrow> string \<Rightarrow> TestExecution" where
  "initialInfo now request executionId =
     \<lparr>exec_id = executionId, status = RUNNING, startTime = Some now,
      comment = req_comment request, averageScore = None, averageRelativeScore = None,
      acceptedCount = None, totalCount = Some (real_of_int (testCaseCount request)),
      maxExecutionTime = None\<rparr>"

definition pmExecutePacherStart ::
  "int \<Rightarrow> TestExecutionRequest \<Rightarrow> string \<Rightarrow> spawn_result \<Rightarrow> results \<times> ProcessManager \<Rightarrow>
     PacherExecutionResult option \<times> results \<times> ProcessManager" where
  "pmExecutePacherStart now request executionId sp st =
     (let rs = fst st; m = snd st;
          d = (case map_of rs executionId of None \<Rightarrow> emptyDir | Some d \<Rightarrow> d);
          rs' = AList.update executionId
                  (d\<lparr>info := Some (InfoRecord (initialInfo now request executionId))\<rparr>) rs
      in case sp of
           Spawned child \<Rightarrow>
             (None, rs',
              m\<lparr>activeProcesses := AList.update executionId child (activeProcesses m)\<rparr>)
         | SpawnThrew message \<Rightarrow>
             (Some \<lparr>success = False, exitCode = None, stderr = message,
                    errorMessage = Some (Message message)\<rparr>, rs', m))"

text \<open>
  \<open>ProcessManager.saveTestResults\<close>: the newest file of \<open>pahcer/json\<close> (\<open>produced\<close>,
  \<open>None\<close> when there is none) is copied to \<open>summary.json\<close> of the run, which fails
  (and is caught) when the directory of the run is gone; then \<open>case_outputs\<close> is made
  with \<open>recursive\<close>, which makes the directory of the run as well.
\<close>

definition saveTestResults :: "string \<Rightarrow> summary_file option \<Rightarrow> results \<Rightarrow> results" where
  "saveTestResults executionId produced rs =
     (let rs1 = (case (produced, map_of rs executionId) of
                   (Some f, Some d) \<Rightarrow> AList.update executionId (d\<lparr>summary := Some f\<rparr>) rs
                 | _ \<Rightarrow> rs)
      in if map_of rs1 executionId = None then AList.update executionId emptyDir rs1 else rs1)"

text \<open>
  How the child ends: the \<open>close\<close> event with the exit code (\<open>null\<close> when a signal
  ended it), or the \<open>error\<close> event with a message. \<open>err\<close> is the text of \<open>stderr\<close>
  gathered so far. The two handlers of \<open>ProcessManager.executePacher\<close> resolve the
  promise with the result.
\<close>

datatype child_end = Close "int option" | Error string

definition pmChildEnded ::
  "string \<Rightarrow> child_end \<Rightarrow> string \<Rightarrow> summary_file option \<Rightarrow> results \<times> ProcessManager \<Rightarrow>
     PacherExecutionResult \<times> results \<times> ProcessManager" where
  "pmChildEnded executionId ev err produced st =
     (let rs = fst st;
          m = (snd st)\<lparr>activeProcesses := AList.delete executionId (activeProcesses (snd st))\<rparr>
      in case ev of
           Close code \<Rightarrow>
             (let ok = (code = Some 0)
              in (\<lparr>success = ok, exitCode = code, stderr = err,
                   errorMessage =
                     (if ok then None
                      else Some (if err \<noteq> [] then Stderr err else ExitedWithCode code))\<rparr>,
                  if ok then saveTestResults executionId produced rs else rs, m))
         | Error message \<Rightarrow>
             (\<lparr>success = False, exitCode = None, stderr = err,
               errorMessage = Some (Message message)\<rparr>, rs, m))"

section \<open>The execution service\<close>

text \<open>
  The messages of \<open>emitLog\<close>, one constructor for each template of the code, with the
  values it interpolates.
\<close>

datatype log_message =
    UpdatingConfig | ConfigUpdateFailed | ConfigUpdated int int
  | KilledByUser | RestoringAfterStop | RestoreFailed | Restored
  | ExecutionStarted | Restoring | PacherCompleted | PacherFailed "error_message option"
  | RestoringAfterError | RestoreFailedAfterError | RestoredAfterError
  | PacherError js_error
  | Recalculating | RecalculationCompleted | RecalculationFailed js_error
  | FinalResultPassed "real option" "real option" | FinalResultFailed
  | ExecutionDataDeleted

text \<open>
  What \<open>ExecutionService\<close> emits: \<open>execution:log\<close>, \<open>execution:status\<close> (run id,
  status, record) and \<open>execution:progress\<close>. The time stamp of a log is left out.
\<close>

datatype event =
    ExecutionLog string log_message
  | ExecutionStatus string TestExecutionStatus TestExecution
  | ExecutionProgress string TestExecution

text \<open>
  The state the service works on: the files of \<open>ConfigService\<close>, the results
  directory, the process manager, and the events emitted so far.
\<close>

record system =
  configFs :: config_fs
  resultsDir :: results
  processManager :: ProcessManager
  emitted :: "event list"

definition emit :: "event \<Rightarrow> system \<Rightarrow> system" where
  "emit ev s = s\<lparr>emitted := emitted s @ [ev]\<rparr>"

definition emitLog :: "string \<Rightarrow> log_message \<Rightarrow> system \<Rightarrow> system" where
  "emitLog executionId message s = emit (ExecutionLog executionId message) s"

text \<open>
  An operation of the service returns the exception that escapes it, if any, and the
  state it leaves: what was written before a \<open>throw\<close> stays written.

  \<open>ExecutionService.updateExecutionStatus\<close>.
\<close>

definition updateExecutionStatus ::
  "int \<Rightarrow> string \<Rightarrow> TestExecutionStatus \<Rightarrow> system \<Rightarrow> js_error option \<times> system" where
  "updateExecutionStatus now executionId st s =
     (case updateStatus now (configFs s) executionId st (resultsDir s) of
        (Some err, rs) \<Rightarrow> (Some err, s\<lparr>resultsDir := rs\<rparr>)
      | (None, rs) \<Rightarrow>
          (let s1 = s\<lparr>resultsDir := rs\<rparr>
           in case findById now (configFs s1) (resultsDir s1) executionId of
                Inl err \<Rightarrow> (Some err, s1)
              | Inr None \<Rightarrow> (None, s1)
              | Inr (Some execution) \<Rightarrow>
                  (None, emit (ExecutionStatus executionId st execution) s1)))"

text \<open>
  \<open>ExecutionService.finalizeExecution\<close>. What the first \<open>save\<close> throws leaves the
  function. What the recalculation throws is caught: the failure is logged, and the
  function goes on to read the record again and to emit it.
\<close>

definition finalizeExecution ::
  "int \<Rightarrow> string \<Rightarrow> TestExecutionStatus \<Rightarrow> system \<Rightarrow> js_error option \<times> system" where
  "finalizeExecution now executionId st s =
     (case findById now (configFs s) (resultsDir s) executionId of
        Inl err \<Rightarrow> (Some err, s)
      | Inr None \<Rightarrow> updateExecutionStatus now executionId st s
      | Inr (Some found) \<Rightarrow>
          (let finalExecution = found\<lparr>status := st\<rparr>;
               saved = save finalExecution (resultsDir s);
               s1 = s\<lparr>resultsDir := snd saved\<rparr>
           in case fst saved of
                Some err \<Rightarrow> (Some err, s1)
              | None \<Rightarrow>
                  if st = COMPLETED then
                    (let s2 = emitLog executionId Recalculating s1;
                         recalculated =
                           recalculateAllRelativeScores now (configFs s2) (resultsDir s2);
                         s3 = s2\<lparr>resultsDir := fst (snd recalculated)\<rparr>;
                         s4 = emitLog executionId
                                (case fst recalculated of
                                   None \<Rightarrow> RecalculationCompleted
                                 | Some err \<Rightarrow> RecalculationFailed err) s3
                     in case findById now (configFs s4) (resultsDir s4) executionId of
                          Inl err \<Rightarrow> (Some err, s4)
                        | Inr None \<Rightarrow> (None, s4)
                        | Inr (Some reread) \<Rightarrow>
                            (let updatedExecution = reread\<lparr>status := st\<rparr>
                             in (None,
                                 emitLog executionId
                                   (FinalResultPassed (acceptedCount updatedExecution)
                                      (totalCount updatedExecution))
                                   (emit (ExecutionProgress executionId updatedExecution)
                                     (emit (ExecutionStatus executionId st updatedExecution)
                                        s4)))))
                  else
                    (None,
                     emitLog executionId FinalResultFailed
                       (emit (ExecutionProgress executionId finalExecution)
                         (emit (ExecutionStatus executionId st finalExecution) s1)))))"

text \<open>The \<open>catch\<close> block of \<open>ExecutionService.executePacher\<close>.\<close>

definition executePacherCatch ::
  "int \<Rightarrow> string \<Rightarrow> js_error \<Rightarrow> system \<Rightarrow> js_error option \<times> system" where
  "executePacherCatch now executionId err s =
     (let s1 = emitLog executionId RestoringAfterError s;
          restored = restoreConfig (configFs s1);
          s2 = s1\<lparr>configFs := snd restored\<rparr>;
          s3 = emitLog executionId
                 (if \<not> fst restored then RestoreFailedAfterError else RestoredAfterError) s2;
          s4 = emitLog executionId (PacherError err) s3
      in finalizeExecution now executionId FAILED s4)"

text \<open>
  \<open>ExecutionService.executePacher\<close> from the point where the promise of the process
  manager is resolved with \<open>result\<close>: the rest of the \<open>try\<close> block, and the \<open>catch\<close>
  block for what it throws.
\<close>

definition executePacherResume ::
  "int \<Rightarrow> string \<Rightarrow> PacherExecutionResult \<Rightarrow> system \<Rightarrow> js_error option \<times> system" where
  "executePacherResume now executionId result s =
     (let s1 = emitLog executionId Restoring s;
          restored = restoreConfig (configFs s1);
          s2 = s1\<lparr>configFs := snd restored\<rparr>;
          s3 = emitLog executionId (if \<not> fst restored then RestoreFailed else Restored) s2;
          r = (if success result
               then finalizeExecution now executionId COMPLETED
                      (emitLog executionId PacherCompleted s3)
               else finalizeExecution now executionId FAILED
                      (emitLog executionId (PacherFailed (errorMessage result)) s3))
      in case fst r of
           None \<Rightarrow> r
         | Some err \<Rightarrow> executePacherCatch now executionId err (snd r))"

text \<open>
  \<open>ExecutionService.executePacher\<close> from its start to the point where it waits for
  the child (\<open>None\<close> with the child spawned), or to its end when \<open>spawn\<close> threw.
\<close>

definition executePacherBegin ::
  "int \<Rightarrow> string \<Rightarrow> TestExecutionRequest \<Rightarrow> spawn_result \<Rightarrow> system \<Rightarrow>
     js_error option \<times> system" where
  "executePacherBegin now executionId request sp s =
     (case updateExecutionStatus now executionId RUNNING s of
        (Some err, s1) \<Rightarrow> executePacherCatch now executionId err s1
      | (None, s1) \<Rightarrow>
          (let s2 = emitLog executionId ExecutionStarted s1;
               started = pmExecutePacherStart now request executionId sp
                           (resultsDir s2, processManager s2);
               s3 = s2\<lparr>resultsDir := fst (snd started), processManager := snd (snd started)\<rparr>
           in case fst started of
                None \<Rightarrow> (None, s3)
              | Some result \<Rightarrow> executePacherResume now executionId result s3))"

text \<open>
  The handler \<open>startExecution\<close> puts on the promise of \<open>executePacher\<close>:
  \<^verbatim>\<open>.catch((error) => { ...; this.updateExecutionStatus(executionId, 'FAILED'); })\<close>
  What that call throws is not handled by anyone.
\<close>

definition onRejected :: "int \<Rightarrow> string \<Rightarrow> js_error option \<times> system \<Rightarrow> system" where
  "onRejected now executionId r =
     (case fst r of
        None \<Rightarrow> snd r
      | Some err \<Rightarrow> snd (updateExecutionStatus now executionId FAILED (snd r)))"

text \<open>
  \<open>ExecutionService.startExecution\<close>, which returns once the initial record is saved;
  \<open>executionId\<close> is the fresh uuid. The counts of a request are integers, so the initial
  record is valid and its \<open>save\<close> does not throw. The call of \<open>executePacher\<close> it ends
  with runs on afterwards, as the two steps below: \<open>executePacherStarted\<close> up to the
  spawned child, and \<open>childEnded\<close> when the child has ended.
\<close>

definition startExecution :: "int \<Rightarrow> string \<Rightarrow> TestExecutionRequest \<Rightarrow> system \<Rightarrow> system" where
  "startExecution now executionId request s =
     (let s1 = emitLog executionId UpdatingConfig s;
          updated = updateConfigForTest (testCaseCount request) (startSeed request) (configFs s1);
          s2 = s1\<lparr>configFs := snd updated\<rparr>;
          s3 = emitLog executionId
                 (if \<not> fst updated then ConfigUpdateFailed
                  else ConfigUpdated (startSeed request)
                         (jsAdd (startSeed request) (testCaseCount request))) s2;
          initialExecution =
            \<lparr>exec_id = executionId, status = IDLE, startTime = Some now,
             comment = req_comment request, averageScore = Some 0,
             averageRelativeScore = Some 0, acceptedCount = None,
             totalCount = Some (real_of_int (testCaseCount request)), maxExecutionTime = None\<rparr>
      in s3\<lparr>resultsDir := snd (save initialExecution (resultsDir s3))\<rparr>)"

definition executePacherStarted ::
  "int \<Rightarrow> string \<Rightarrow> TestExecutionRequest \<Rightarrow> spawn_result \<Rightarrow> system \<Rightarrow> system" where
  "executePacherStarted now executionId request sp s =
     onRejected now executionId (executePacherBegin now executionId request sp s)"

definition childEnded ::
  "int \<Rightarrow> string \<Rightarrow> child_end \<Rightarrow> string \<Rightarrow> summary_file option \<Rightarrow> system \<Rightarrow> system" where
  "childEnded now executionId ev err produced s =
     (let ended = pmChildEnded executionId ev err produced (resultsDir s, processManager s);
          s1 = s\<lparr>resultsDir := fst (snd ended), processManager := snd (snd ended)\<rparr>
      in onRejected now executionId (executePacherResume now executionId (fst ended) s1))"

text \<open>\<open>ExecutionService.stopExecution\<close>.\<close>

definition stopExecution :: "int \<Rightarrow> string \<Rightarrow> system \<Rightarrow> js_error option \<times> system" where
  "stopExecution now executionId s =
     (let k = killProcess executionId (processManager s)
      in if fst k then
           (let s1 = emitLog executionId KilledByUser (s\<lparr>processManager := snd k\<rparr>);
                s2 = emitLog executionId RestoringAfterStop s1;
                restored = restoreConfig (configFs s2);
                s3 = s2\<lparr>configFs := snd restored\<rparr>;
                s4 = emitLog executionId (if \<not> fst restored then RestoreFailed else Restored) s3
            in updateExecutionStatus now executionId CANCELLED s4)
         else (None, s))"

text \<open>
  \<open>ExecutionService.deleteExecution\<close>: the child, if there is one, is killed, and the
  directory of the run is removed (\<open>rm\<close> with \<open>recursive\<close> and \<open>force\<close>, which a missing
  directory does not make fail).
\<close>

definition deleteExecution :: "string \<Rightarrow> system \<Rightarrow> system" where
  "deleteExecution executionId s =
     emitLog executionId ExecutionDataDeleted
       (s\<lparr>processManager := snd (killProcess executionId (processManager s)),
          resultsDir := AList.delete executionId (resultsDir s)\<rparr>)"

text \<open>
  The operations of the service that change the state or emit an event: the three
  methods \<open>startExecution\<close>, \<open>stopExecution\<close> and \<open>deleteExecution\<close>, and the two
  continuations of \<open>executePacher\<close>. (\<open>getExecutionStatus\<close>, \<open>getAllExecutions\<close>,
  \<open>getTestCases\<close> and \<open>getTestCaseResult\<close> only read.) Each is taken to run to its end
  before the next one begins.
\<close>

datatype operation =
    StartExecution int string TestExecutionRequest
  | ExecutePacherStarted int string TestExecutionRequest spawn_result
  | ChildEnded int string child_end string "summary_file option"
  | StopExecution int string
  | DeleteExecution string

fun perform :: "operation \<Rightarrow> system \<Rightarrow> system" where
  "perform (StartExecution now executionId request) s = startExecution now executionId request s"
| "perform (ExecutePacherStarted now executionId request sp) s =
     executePacherStarted now executionId request sp s"
| "perform (ChildEnded now executionId ev err produced) s =
     childEnded now executionId ev err produced s"
| "perform (StopExecution now executionId) s = snd (stopExecution now executionId s)"
| "perform (DeleteExecution executionId) s = deleteExecution executionId s"

section \<open>Descriptions the properties refer to\<close>

text \<open>
  The entries of a best-score file that have a key \<open>parseInt\<close> reads as an integer and
  a number as value, each under the integer its key reads as, in the order of the file.
\<close>

definition numericEntries :: "(string \<times> json) list \<Rightarrow> (int \<times> real) list" where
  "numericEntries entries =
     concat (map (\<lambda>(k, v). case (parseInt k, v) of
                               (Some n, JNum x) \<Rightarrow> [(n, x)]
                             | _ \<Rightarrow> []) entries)"

text \<open>
  The cases the loop counts (a score that is not \<open>null\<close>, and an entry of the table for
  the seed), and the cases with a positive score and an entry of the table.
\<close>

definition counted :: "bestScores \<Rightarrow> SummaryCaseRaw \<Rightarrow> bool" where
  "counted bs c = (score c \<noteq> None \<and> bs (seed c) \<noteq> None)"

definition positiveWithBest :: "bestScores \<Rightarrow> SummaryCaseRaw \<Rightarrow> bool" where
  "positiveWithBest bs c =
     ((case score c of None \<Rightarrow> False | Some sc \<Rightarrow> 0 < sc) \<and> bs (seed c) \<noteq> None)"

text \<open>The relative score of one case, and its mean over the cases that satisfy \<open>P\<close>.\<close>

definition caseRelativeScore :: "bestScores \<Rightarrow> objective \<Rightarrow> SummaryCaseRaw \<Rightarrow> real" where
  "caseRelativeScore bs obj c =
     (case (score c, bs (seed c)) of
        (Some sc, Some best) \<Rightarrow> calculateRelativeScore sc best obj
      | _ \<Rightarrow> 0)"

definition meanRelativeScore ::
  "(SummaryCaseRaw \<Rightarrow> bool) \<Rightarrow> bestScores \<Rightarrow> objective \<Rightarrow> SummaryCaseRaw list \<Rightarrow> real" where
  "meanRelativeScore P bs obj cs =
     (let qs = filter P cs
      in if qs = [] then 0
         else sum_list (map (caseRelativeScore bs obj) qs) / real (length qs))"

text \<open>The statuses of the \<open>execution:status\<close> events of a run, in the order of emission.\<close>

definition statusesOf :: "string \<Rightarrow> event list \<Rightarrow> TestExecutionStatus list" where
  "statusesOf i evs =
     concat (map (\<lambda>ev. case ev of
                          ExecutionStatus j st rec \<Rightarrow> if j = i then [st] else []
                        | _ \<Rightarrow> []) evs)"

section \<open>Concrete inputs\<close>

text \<open>
  A configuration with all three sections, the best-score table \<open>{1: 1000, 2: 800}\<close>
  under the objective \<open>Min\<close>, and a process manager that tracks one child.
\<close>

definition exampleConfig :: PahcerConfig where
  "exampleConfig =
     \<lparr>general = Some \<lparr>version = Some ''0.1.0''\<rparr>,
      problem = Some \<lparr>problem_name = Some ''ahc'', objective = Some ObjMin,
                      score_regex = None\<rparr>,
      test = Some \<lparr>start_seed = Some 0, end_seed = Some 50, threads = Some 4,
                   out_dir = Some ''tools/out'', compile_steps = None, test_steps = None\<rparr>\<rparr>"

definition exampleFs :: config_fs where
  "exampleFs =
     \<lparr>configFile = Some (Toml exampleConfig), backupFile = None,
      bestScoresFile = Some (Json (JObj [(''1'', JNum 1000), (''2'', JNum 800)]))\<rparr>"

definition exampleManager :: ProcessManager where
  "exampleManager = \<lparr>activeProcesses = [(''run-1'', 4242)], sigkilled = []\<rparr>"

definition exampleSystem :: system where
  "exampleSystem =
     \<lparr>configFs = exampleFs, resultsDir = [], processManager = exampleManager, emitted = []\<rparr>"

text \<open>
  The summary of the scenario of the specification (seed 2 has no score), and one
  whose second case has the score 0.
\<close>

definition exampleSummary :: SummaryJson where
  "exampleSummary =
     \<lparr>case_count = Some 2, total_score = Some 500, max_execution_time = Some (3 / 2),
      summary_comment = Some ''baseline'', wa_seeds = Some [2],
      cases = Some (CasesArray
        [Some \<lparr>seed = 1, score = Some 500, execution_time = 1, error_message = None\<rparr>,
         Some \<lparr>seed = 2, score = None, execution_time = 3 / 2,
               error_message = Some ''TLE''\<rparr>])\<rparr>"

definition zeroScoreSummary :: SummaryJson where
  "zeroScoreSummary =
     \<lparr>case_count = Some 2, total_score = Some 500, max_execution_time = Some 1,
      summary_comment = None, wa_seeds = None,
      cases = Some (CasesArray
        [Some \<lparr>seed = 1, score = Some 500, execution_time = 1, error_message = None\<rparr>,
         Some \<lparr>seed = 2, score = Some 0, execution_time = 1, error_message = None\<rparr>])\<rparr>"

text \<open>
  A results directory with one completed run and the summary above; one whose stored
  average (9) is not the one of its summary (2); and one whose summary has no
  \<open>case_count\<close>, with the metadata a \<open>save\<close> of the recalculation writes.
\<close>

definition completedRun :: TestExecution where
  "completedRun =
     \<lparr>exec_id = ''run-1'', status = COMPLETED, startTime = Some 1000,
      comment = Some ''baseline'', averageScore = Some 250, averageRelativeScore = Some 2,
      acceptedCount = Some 1, totalCount = Some 2, maxExecutionTime = Some 1500\<rparr>"

definition exampleResults :: results where
  "exampleResults =
     [(''run-1'', \<lparr>info = Some (InfoRecord completedRun),
                   summary = Some (SummaryData exampleSummary)\<rparr>)]"

definition staleResults :: results where
  "staleResults =
     [(''run-1'', \<lparr>info = Some (InfoRecord (completedRun\<lparr>averageRelativeScore := Some 9\<rparr>)),
                   summary = Some (SummaryData exampleSummary)\<rparr>)]"

definition noCountSummary :: SummaryJson where
  "noCountSummary =
     \<lparr>case_count = None, total_score = Some 500, max_execution_time = Some (3 / 2),
      summary_comment = Some ''baseline'', wa_seeds = None,
      cases = Some (CasesArray
        [Some \<lparr>seed = 1, score = Some 500, execution_time = 1, error_message = None\<rparr>,
         Some \<lparr>seed = 2, score = None, execution_time = 3 / 2,
               error_message = Some ''TLE''\<rparr>])\<rparr>"

definition noCountRun :: TestExecution where
  "noCountRun =
     \<lparr>exec_id = ''run-1'', status = COMPLETED, startTime = Some 1000,
      comment = Some ''baseline'', averageScore = Some 0, averageRelativeScore = Some 2,
      acceptedCount = Some 0, totalCount = Some 0, maxExecutionTime = Some 1500\<rparr>"

definition noCountResults :: results where
  "noCountResults =
     [(''run-1'', \<lparr>info = Some (InfoRecord noCountRun),
                   summary = Some (SummaryData noCountSummary)\<rparr>)]"

text \<open>
  A system at rest, two requests, and the states of three histories: run \<open>run-a\<close>
  started and its child spawned; the same run stopped, after which its child closes
  with no exit code; and a second run \<open>run-b\<close> started while \<open>run-a\<close> is running, after
  which the child of \<open>run-a\<close> exits with code 0. Last, a system whose only run is
  recorded as running and has its summary in place, with the backup of the
  configuration that its start made.
\<close>

definition idleSystem :: system where
  "idleSystem = \<lparr>configFs = exampleFs, resultsDir = [],
     processManager = \<lparr>activeProcesses = [], sigkilled = []\<rparr>, emitted = []\<rparr>"

definition requestA :: TestExecutionRequest where
  "requestA = \<lparr>req_comment = Some ''baseline'', shuffle = False, freezeBestScores = False,
     testCaseCount = 100, startSeed = 0\<rparr>"

definition requestB :: TestExecutionRequest where
  "requestB = \<lparr>req_comment = None, shuffle = False, freezeBestScores = False,
     testCaseCount = 10, startSeed = 500\<rparr>"

definition startedA :: system where
  "startedA = executePacherStarted 1 ''run-a'' requestA (Spawned 11)
     (startExecution 0 ''run-a'' requestA idleSystem)"

definition stoppedThenClosedA :: system where
  "stoppedThenClosedA =
     childEnded 3 ''run-a'' (Close None) [] None (snd (stopExecution 2 ''run-a'' startedA))"

definition overlapped :: system where
  "overlapped = childEnded 4 ''run-a'' (Close (Some 0)) [] (Some (SummaryData exampleSummary))
     (executePacherStarted 3 ''run-b'' requestB (Spawned 12)
       (startExecution 2 ''run-b'' requestB startedA))"

definition runningSystem :: system where
  "runningSystem =
     \<lparr>configFs = exampleFs\<lparr>backupFile := Some (Toml exampleConfig)\<rparr>,
      resultsDir = [(''run-1'', \<lparr>info = Some (InfoRecord (completedRun\<lparr>status := RUNNING\<rparr>)),
                                 summary = Some (SummaryData exampleSummary)\<rparr>)],
      processManager = \<lparr>activeProcesses = [], sigkilled = []\<rparr>, emitted = []\<rparr>"

text \<open>
  A history of three runs: \<open>run-1\<close> is running; the older \<open>run-0\<close> has a summary whose
  \<open>cases\<close> is an object; the oldest, \<open>run-2\<close>, has a summary without \<open>case_count\<close> and the
  stored average 0, where its cases have the average 2. The child of \<open>run-1\<close> then exits
  with code 0.
\<close>

definition brokenHistory :: results where
  "brokenHistory =
     [(''run-0'', \<lparr>info = Some (InfoRecord (completedRun\<lparr>exec_id := ''run-0'',
                                                          startTime := Some 500\<rparr>)),
                   summary = Some (SummaryData (exampleSummary\<lparr>cases := Some CasesNotIterable\<rparr>))\<rparr>),
      (''run-1'', \<lparr>info = Some (InfoRecord (completedRun\<lparr>status := RUNNING\<rparr>)),
                   summary = None\<rparr>),
      (''run-2'', \<lparr>info = Some (InfoRecord (noCountRun\<lparr>exec_id := ''run-2'',
                                                       startTime := Some 100,
                                                       averageRelativeScore := Some 0\<rparr>)),
                   summary = Some (SummaryData noCountSummary)\<rparr>)]"

definition brokenHistorySystem :: system where
  "brokenHistorySystem =
     \<lparr>configFs = exampleFs\<lparr>backupFile := Some (Toml exampleConfig)\<rparr>,
      resultsDir = brokenHistory,
      processManager = \<lparr>activeProcesses = [(''run-1'', 21)], sigkilled = []\<rparr>, emitted = []\<rparr>"

definition abortedRecalculation :: system where
  "abortedRecalculation =
     childEnded 7 ''run-1'' (Close (Some 0)) [] (Some (SummaryData exampleSummary))
       brokenHistorySystem"

section \<open>Properties\<close>

subsection \<open>The relative score of a case\<close>

text \<open>
  C3. With a positive score and a positive best score, \<open>calculateRelativeScore\<close> is
  \<open>score / best\<close> under \<open>Max\<close> and \<open>best / score\<close> under \<open>Min\<close>; when the score or the best
  score is not positive it is 0, under either objective.
\<close>

theorem calculateRelativeScore_spec:
  "(0 < s \<and> 0 < b \<longrightarrow>
      calculateRelativeScore s b ObjMax = s / b \<and> calculateRelativeScore s b ObjMin = b / s) \<and>
   (s \<le> 0 \<or> b \<le> 0 \<longrightarrow> calculateRelativeScore s b ob = 0)"
  by (simp add: calculateRelativeScore_def)

theorem calculateRelativeScore_spec_witness:
  "calculateRelativeScore 500 1000 ObjMax = 1 / 2 \<and>
   calculateRelativeScore 500 1000 ObjMin = 2 \<and>
   calculateRelativeScore (- 1) 1000 ObjMin = 0 \<and>
   calculateRelativeScore 5 0 ObjMax = 0"
  using calculateRelativeScore_spec [of 500 1000]
    calculateRelativeScore_spec [of "- 1" 1000 ObjMin]
    calculateRelativeScore_spec [of 5 0 ObjMax]
  by simp

subsection \<open>The seed window\<close>

lemma roundToDouble_safe: "\<bar>x\<bar> \<le> 2 ^ 53 \<Longrightarrow> roundToDouble x = x"
  by (simp add: roundToDouble_def)

lemma jsAdd_safe: "0 \<le> a \<Longrightarrow> 0 \<le> b \<Longrightarrow> a + b \<le> 2 ^ 53 \<Longrightarrow> jsAdd a b = a + b"
  by (simp add: jsAdd_def roundToDouble_safe)

text \<open>
  C7, as the claim states it, fails: \<open>end_seed\<close> is a sum of doubles. For
  \<open>startSeed = 2^53\<close> and \<open>testCaseCount = 1\<close> the sum \<open>2^53 + 1\<close> is no double, and the
  code writes \<open>end_seed = 2^53\<close>, the value of \<open>start_seed\<close>.
\<close>

theorem updateConfigForTest_large_seed_counterexample:
  "test (getConfig (snd (updateConfigForTest 1 9007199254740992 exampleFs))) =
     Some \<lparr>start_seed = Some 9007199254740992, end_seed = Some 9007199254740992,
           threads = Some 4, out_dir = Some ''tools/out'', compile_steps = None,
           test_steps = None\<rparr> \<and>
   (9007199254740992 :: int) = 2 ^ 53 \<and>
   (9007199254740992 :: int) \<noteq> 9007199254740992 + 1"
  by code_simp

text \<open>
  C7, amended. Whatever the files hold, \<open>updateConfigForTest\<close> returns \<open>true\<close> and the
  configuration read back afterwards has a \<open>test\<close> section with \<open>start_seed = startSeed\<close>
  and, when \<open>startSeed \<ge> 0\<close>, \<open>testCaseCount \<ge> 1\<close> and their sum is at most \<open>2^53\<close>,
  \<open>end_seed = startSeed + testCaseCount\<close>; every other field of that section, and the
  sections \<open>general\<close> and \<open>problem\<close>, are as \<open>getConfig\<close> read them before the call. (A file
  that is missing or does not parse is read as the empty configuration; a text that
  parses is taken for the document it parses to.)
\<close>

theorem updateConfigForTest_frame:
  "fst (updateConfigForTest n s fs) = True \<and>
   (\<exists>t'. test (getConfig (snd (updateConfigForTest n s fs))) = Some t' \<and>
      start_seed t' = Some s \<and>
      (0 \<le> s \<and> 1 \<le> n \<and> s + n \<le> 2 ^ 53 \<longrightarrow> end_seed t' = Some (s + n)) \<and>
      threads t' = (case test (getConfig fs) of None \<Rightarrow> None | Some t \<Rightarrow> threads t) \<and>
      out_dir t' = (case test (getConfig fs) of None \<Rightarrow> None | Some t \<Rightarrow> out_dir t) \<and>
      compile_steps t' =
        (case test (getConfig fs) of None \<Rightarrow> None | Some t \<Rightarrow> compile_steps t) \<and>
      test_steps t' =
        (case test (getConfig fs) of None \<Rightarrow> None | Some t \<Rightarrow> test_steps t)) \<and>
   general (getConfig (snd (updateConfigForTest n s fs))) = general (getConfig fs) \<and>
   problem (getConfig (snd (updateConfigForTest n s fs))) = problem (getConfig fs)"
  by (auto simp add: updateConfigForTest_def getConfig_def backupConfig_def Let_def
        emptyTest_def emptyConfig_def jsAdd_safe
      split: option.split config_file.split)

theorem updateConfigForTest_frame_witness:
  "getConfig (snd (updateConfigForTest 100 0 exampleFs)) =
     exampleConfig\<lparr>test := Some \<lparr>start_seed = Some 0, end_seed = Some 100, threads = Some 4,
       out_dir = Some ''tools/out'', compile_steps = None, test_steps = None\<rparr>\<rparr>"
  using updateConfigForTest_frame [of 100 0 exampleFs]
  by (auto simp add: getConfig_def exampleFs_def exampleConfig_def)

subsection \<open>The best-score table\<close>

text \<open>
  The loop of \<open>getBestScores\<close> builds the table of the numeric entries; a later entry
  replaces an earlier one that reads as the same seed.
\<close>

lemma foldl_bestScoresStep:
  "foldl bestScoresStep m entries = m ++ map_of (rev (numericEntries entries))"
proof (induction entries arbitrary: m)
  case Nil
  show ?case by (simp add: numericEntries_def)
next
  case (Cons e es)
  obtain k v where e: "e = (k, v)" by (cases e)
  show ?case
    unfolding foldl_Cons Cons.IH
    by (cases "parseInt k"; cases v)
       (simp_all add: e bestScoresStep_def numericEntries_def map_add_upd_left)
qed

lemma getBestScores_eq:
  "getBestScores fs =
     Inr (case bestScoresFile fs of
            Some (Json v) \<Rightarrow>
              (case objectEntries v of
                 Some entries \<Rightarrow> map_of (rev (numericEntries entries))
               | None \<Rightarrow> Map.empty)
          | _ \<Rightarrow> Map.empty)"
  by (simp add: getBestScores_def getBestScoresTry_def foldl_bestScoresStep
      split: option.split json_file.split)

lemma set_numericEntries:
  "(n, x) \<in> set (numericEntries entries) \<longleftrightarrow>
     (\<exists>k. (k, JNum x) \<in> set entries \<and> parseInt k = Some n)"
  by (induction entries)
     (auto simp add: numericEntries_def split: option.splits json.splits)

lemma parseInt_1: "parseInt ''1'' = Some 1"
  by (simp add: parseInt_def isStrWhiteSpaceChar_def isDecimalDigit_def digitValue_def)
lemma parseInt_2: "parseInt ''2'' = Some 2"
  by (simp add: parseInt_def isStrWhiteSpaceChar_def isDecimalDigit_def digitValue_def)

lemma getBestScores_exampleFs: "getBestScores exampleFs = Inr [1 \<mapsto> 1000, 2 \<mapsto> 800]"
  by (simp add: getBestScores_eq exampleFs_def objectEntries_def numericEntries_def parseInt_1 parseInt_2)


text \<open>
  C10. \<open>getBestScores\<close> never throws: it always returns a table. When the file holds a
  JSON value with own properties, the table is that of the entries whose key \<open>parseInt\<close>
  reads as an integer and whose value is a number: every entry of the table comes from
  such an entry of the file, and every such entry of the file has its seed in the table
  (with the value of the last entry that reads as this seed). \<open>parseInt\<close> reads a leading
  integer, so the key \<open>12abc\<close> reads as 12. When the file is missing, is not JSON, or
  holds \<open>null\<close>, the table is empty.
\<close>

theorem getBestScores_total_exact:
  "(\<exists>table. getBestScores fs = Inr table) \<and>
   (\<forall>v entries. bestScoresFile fs = Some (Json v) \<and> objectEntries v = Some entries \<longrightarrow>
      (\<exists>table. getBestScores fs = Inr table \<and>
         table = map_of (rev (numericEntries entries)) \<and>
         (\<forall>n x. table n = Some x \<longrightarrow>
            (\<exists>k. (k, JNum x) \<in> set entries \<and> parseInt k = Some n)) \<and>
         (\<forall>k x n. (k, JNum x) \<in> set entries \<and> parseInt k = Some n \<longrightarrow> table n \<noteq> None))) \<and>
   (bestScoresFile fs = None \<or> bestScoresFile fs = Some BadJson \<or>
    bestScoresFile fs = Some (Json JNull) \<longrightarrow> getBestScores fs = Inr Map.empty)"
proof (intro conjI allI impI)
  show "\<exists>table. getBestScores fs = Inr table"
    by (simp add: getBestScores_eq)
next
  fix v entries
  assume a: "bestScoresFile fs = Some (Json v) \<and> objectEntries v = Some entries"
  have sound: "\<And>n x. map_of (rev (numericEntries entries)) n = Some x \<Longrightarrow>
      \<exists>k. (k, JNum x) \<in> set entries \<and> parseInt k = Some n"
    using set_numericEntries [of _ _ entries] by (auto dest!: map_of_SomeD)
  have complete: "\<And>k x n. (k, JNum x) \<in> set entries \<and> parseInt k = Some n \<Longrightarrow>
      map_of (rev (numericEntries entries)) n \<noteq> None"
  proof -
    fix k x n
    assume "(k, JNum x) \<in> set entries \<and> parseInt k = Some n"
    then have "(n, x) \<in> set (rev (numericEntries entries))"
      by (auto simp add: set_numericEntries)
    then have "n \<in> fst ` set (rev (numericEntries entries))"
      by force
    then show "map_of (rev (numericEntries entries)) n \<noteq> None"
      by (simp only: map_of_eq_None_iff not_not)
  qed
  show "\<exists>table. getBestScores fs = Inr table \<and>
         table = map_of (rev (numericEntries entries)) \<and>
         (\<forall>n x. table n = Some x \<longrightarrow>
            (\<exists>k. (k, JNum x) \<in> set entries \<and> parseInt k = Some n)) \<and>
         (\<forall>k x n. (k, JNum x) \<in> set entries \<and> parseInt k = Some n \<longrightarrow> table n \<noteq> None)"
    using a sound complete by (simp add: getBestScores_eq)
next
  assume "bestScoresFile fs = None \<or> bestScoresFile fs = Some BadJson \<or>
    bestScoresFile fs = Some (Json JNull)"
  then show "getBestScores fs = Inr Map.empty"
    by (auto simp add: getBestScores_eq objectEntries_def)
qed


theorem getBestScores_total_exact_witness:
  "getBestScores exampleFs = Inr [1 \<mapsto> 1000, 2 \<mapsto> 800] \<and>
   getBestScores (exampleFs\<lparr>bestScoresFile := Some BadJson\<rparr>) = Inr Map.empty \<and>
   getBestScores (exampleFs\<lparr>bestScoresFile :=
      Some (Json (JObj [(''1'', JNum 5), ('' 12abc'', JNum 3), (''x'', JNum 4),
                        (''2'', JStr ''9''), (''01'', JNum 7)]))\<rparr>) = Inr [1 \<mapsto> 7, 12 \<mapsto> 3]"
proof -
  have 1: "getBestScores exampleFs = Inr [1 \<mapsto> 1000, 2 \<mapsto> 800]"
    using getBestScores_total_exact [of exampleFs]
    by (auto simp add: exampleFs_def objectEntries_def numericEntries_def parseInt_1 parseInt_2)
  have 2: "getBestScores (exampleFs\<lparr>bestScoresFile := Some BadJson\<rparr>) = Inr Map.empty"
    using getBestScores_total_exact [of "exampleFs\<lparr>bestScoresFile := Some BadJson\<rparr>"]
    by simp
  have 3: "getBestScores (exampleFs\<lparr>bestScoresFile :=
      Some (Json (JObj [(''1'', JNum 5), ('' 12abc'', JNum 3), (''x'', JNum 4),
                        (''2'', JStr ''9''), (''01'', JNum 7)]))\<rparr>) = Inr [1 \<mapsto> 7, 12 \<mapsto> 3]"
    using getBestScores_total_exact [of "exampleFs\<lparr>bestScoresFile :=
      Some (Json (JObj [(''1'', JNum 5), ('' 12abc'', JNum 3), (''x'', JNum 4),
                        (''2'', JStr ''9''), (''01'', JNum 7)]))\<rparr>"]
    by (auto simp add: objectEntries_def numericEntries_def parseInt_def
        isStrWhiteSpaceChar_def isDecimalDigit_def digitValue_def fun_upd_twist)
  show ?thesis using 1 2 3 by simp
qed

subsection \<open>Killing and stopping\<close>

text \<open>
  C9. For a run id with no entry in \<open>activeProcesses\<close>, \<open>killProcess\<close> returns \<open>false\<close>
  and leaves the process manager as it is, and \<open>stopExecution\<close> returns with the whole
  state unchanged: no configuration is restored, no record is written, nothing is
  emitted. For a run id with an entry, \<open>killProcess\<close> returns \<open>true\<close>, sends \<open>SIGKILL\<close> to
  the child, and removes the entry and no other.
\<close>

theorem killProcess_spec:
  "(map_of (activeProcesses m) i = None \<longrightarrow> killProcess i m = (False, m)) \<and>
   (map_of (activeProcesses (processManager s)) i = None \<longrightarrow> stopExecution now i s = (None, s)) \<and>
   (map_of (activeProcesses m) i = Some child \<longrightarrow>
      fst (killProcess i m) = True \<and>
      sigkilled (snd (killProcess i m)) = sigkilled m @ [child] \<and>
      map_of (activeProcesses (snd (killProcess i m))) i = None \<and>
      (\<forall>j. j \<noteq> i \<longrightarrow>
         map_of (activeProcesses (snd (killProcess i m))) j = map_of (activeProcesses m) j))"
  by (simp add: killProcess_def stopExecution_def Let_def AList.delete_conv)


theorem killProcess_spec_witness:
  "killProcess ''run-2'' exampleManager = (False, exampleManager) \<and>
   stopExecution 0 ''run-2'' exampleSystem = (None, exampleSystem) \<and>
   killProcess ''run-1'' exampleManager = (True, \<lparr>activeProcesses = [], sigkilled = [4242]\<rparr>)"
proof -
  have a: "map_of (activeProcesses exampleManager) ''run-2'' = None"
    by (simp add: exampleManager_def)
  have b: "map_of (activeProcesses (processManager exampleSystem)) ''run-2'' = None"
    by (simp add: exampleSystem_def exampleManager_def)
  have c: "map_of (activeProcesses exampleManager) ''run-1'' = Some 4242"
    by (simp add: exampleManager_def)
  have d: "activeProcesses (snd (killProcess ''run-1'' exampleManager)) = []"
    by (simp add: killProcess_def exampleManager_def)
  show ?thesis
    using killProcess_spec [of exampleManager "''run-2''" exampleSystem 0 4242] a b
      killProcess_spec [of exampleManager "''run-1''" exampleSystem 0 4242] c d
    by (cases "killProcess ''run-1'' exampleManager")
       (auto simp add: exampleManager_def)
qed

subsection \<open>Looking a run up\<close>

text \<open>
  C6, as the claim states it, fails: for a directory that exists and holds neither
  metadata nor a summary, \<open>findById\<close> returns \<open>null\<close>, the same value it returns when
  the directory does not exist.
\<close>

theorem findById_found_but_empty_counterexample:
  "map_of [(''run'', emptyDir)] ''run'' = Some emptyDir \<and>
   findById 0 exampleFs [(''run'', emptyDir)] ''run'' = Inr None \<and>
   findById 0 exampleFs [] ''run'' = Inr None"
  by (simp add: findById_def infoFileOf_def summaryFileOf_def emptyDir_def)

text \<open>
  C6, amended. \<open>findById\<close> returns \<open>null\<close> exactly when the directory of the run does
  not exist, or exists with metadata that is missing or that the schema rejects (a
  value of another shape, or a record with a count that is no integer) and with a
  summary file that is missing or holds a falsy JSON value.
\<close>

theorem findById_null_iff:
  "findById now fs rs i = Inr None \<longleftrightarrow>
     (map_of rs i = None \<or>
      (\<exists>d. map_of rs i = Some d \<and>
         (info d = None \<or> info d = Some InfoInvalid \<or>
          (\<exists>e. info d = Some (InfoRecord e) \<and> \<not> validTestExecution e)) \<and>
         (summary d = None \<or> summary d = Some SummaryFalsy)))"
  by (auto simp add: findById_def infoFileOf_def summaryFileOf_def Let_def
      split: option.splits info_file.splits summary_file.splits if_splits)

theorem findById_null_iff_witness:
  "findById 0 exampleFs [(''run'', \<lparr>info = Some InfoInvalid, summary = Some SummaryFalsy\<rparr>)]
     ''run'' = Inr None \<and>
   findById 0 exampleFs [(''run'', emptyDir)] ''other'' = Inr None \<and>
   findById 0 exampleFs
     [(''run'', \<lparr>info = Some (InfoRecord (completedRun\<lparr>totalCount := Some (3 / 2)\<rparr>)),
                 summary = None\<rparr>)] ''run'' = Inr None"
proof -
  have v: "\<not> validTestExecution (completedRun\<lparr>totalCount := Some (3 / 2)\<rparr>)"
    by (simp add: validTestExecution_def isInteger_def completedRun_def)
  show ?thesis
    using v
      findById_null_iff [of 0 exampleFs
        "[(''run'', \<lparr>info = Some InfoInvalid, summary = Some SummaryFalsy\<rparr>)]" "''run''"]
      findById_null_iff [of 0 exampleFs "[(''run'', emptyDir)]" "''other''"]
      findById_null_iff [of 0 exampleFs
        "[(''run'', \<lparr>info = Some (InfoRecord (completedRun\<lparr>totalCount := Some (3 / 2)\<rparr>)),
                 summary = None\<rparr>)]" "''run''"]
    by simp
qed

subsection \<open>The average relative score\<close>

lemma relativeScoreStep_counted:
  "relativeScoreStep bs obj acc c =
     (if counted bs c then (fst acc + caseRelativeScore bs obj c, snd acc + 1) else acc)"
  by (cases "score c"; cases "bs (seed c)")
     (simp_all add: relativeScoreStep_def counted_def caseRelativeScore_def)

lemma relativeScoreLoop_acc:
  "foldl (relativeScoreStep bs obj) acc cs =
     (fst acc + sum_list (map (caseRelativeScore bs obj) (filter (counted bs) cs)),
      snd acc + length (filter (counted bs) cs))"
  by (induction cs arbitrary: acc) (simp_all add: relativeScoreStep_counted)

lemma averageOf_loop:
  "averageOf (relativeScoreLoop bs obj cs) = meanRelativeScore (counted bs) bs obj cs"
  by (simp add: averageOf_def relativeScoreLoop_def relativeScoreLoop_acc meanRelativeScore_def Let_def)

lemma stats_averageRelativeScore_eq:
  "getBestScores fs = Inr bs \<Longrightarrow>
   stats_averageRelativeScore (calculateExecutionStats fs sj) =
     (case (case_count sj, cases sj) of
        (Some n, Some (CasesArray entries)) \<Rightarrow>
          (case those entries of
             Some cs \<Rightarrow>
               if 0 < n then meanRelativeScore (counted bs) bs (getObjective fs) cs else 0
           | None \<Rightarrow> 0)
      | _ \<Rightarrow> 0)"
  by (simp add: averageOf_loop calculateExecutionStats_def loadConfig_def isNaN_def Let_def
        relativeScoreLoopTry_def
      split: option.split bool.split cases_value.split)

lemma getObjective_exampleFs: "getObjective exampleFs = ObjMin"
  by (simp add: getObjective_def getConfig_def exampleFs_def exampleConfig_def)


text \<open>
  C4, as the claim states it, fails: a case with the score 0 and a best score counts
  in the divisor. With the scores 500 and 0 under \<open>Min\<close> and the table
  \<open>{1: 1000, 2: 800}\<close> the code yields \<open>(2 + 0) / 2 = 1\<close>, while the mean over the cases
  with a positive score is 2.
\<close>

theorem averageRelativeScore_zero_score_counterexample:
  "stats_averageRelativeScore (calculateExecutionStats exampleFs zeroScoreSummary) = 1 \<and>
   meanRelativeScore (positiveWithBest [1 \<mapsto> 1000, 2 \<mapsto> 800]) [1 \<mapsto> 1000, 2 \<mapsto> 800] ObjMin
     [\<lparr>seed = 1, score = Some 500, execution_time = 1, error_message = None\<rparr>,
      \<lparr>seed = 2, score = Some 0, execution_time = 1, error_message = None\<rparr>] = 2"
  by (simp add: stats_averageRelativeScore_eq [OF getBestScores_exampleFs] zeroScoreSummary_def
      getObjective_exampleFs meanRelativeScore_def counted_def positiveWithBest_def
      caseRelativeScore_def calculateRelativeScore_def)


text \<open>
  C4, amended. The average the loop computes (in \<open>calculateExecutionStats\<close> and in
  \<open>recalculateAllRelativeScores\<close>) is the mean of the relative scores over the cases
  whose score is not \<open>null\<close> and whose seed has an entry in the table, and 0 when there
  is no such case; a counted case whose score is not positive has the relative score
  0. \<open>calculateExecutionStats\<close> reports this mean when \<open>case_count\<close> is positive and
  \<open>cases\<close> is an array of cases, and 0 otherwise.
\<close>

theorem averageRelativeScore_mean_of_counted:
  "averageOf (relativeScoreLoop bs obj cs) = meanRelativeScore (counted bs) bs obj cs \<and>
   (\<forall>c. counted bs c \<and> (\<exists>sc. score c = Some sc \<and> sc \<le> 0) \<longrightarrow>
      caseRelativeScore bs obj c = 0) \<and>
   (\<exists>table. getBestScores fs = Inr table \<and>
      stats_averageRelativeScore (calculateExecutionStats fs sj) =
        (case (case_count sj, cases sj) of
           (Some n, Some (CasesArray entries)) \<Rightarrow>
             (case those entries of
                Some cs' \<Rightarrow>
                  if 0 < n then meanRelativeScore (counted table) table (getObjective fs) cs'
                  else 0
              | None \<Rightarrow> 0)
         | _ \<Rightarrow> 0))"
proof (intro conjI allI impI)
  show "averageOf (relativeScoreLoop bs obj cs) = meanRelativeScore (counted bs) bs obj cs"
    by (rule averageOf_loop)
next
  fix c
  assume "counted bs c \<and> (\<exists>sc. score c = Some sc \<and> sc \<le> 0)"
  then show "caseRelativeScore bs obj c = 0"
    by (auto simp add: caseRelativeScore_def calculateRelativeScore_def split: option.split)
next
  obtain table where t: "getBestScores fs = Inr table"
    by (auto simp add: getBestScores_eq)
  show "\<exists>table. getBestScores fs = Inr table \<and>
      stats_averageRelativeScore (calculateExecutionStats fs sj) =
        (case (case_count sj, cases sj) of
           (Some n, Some (CasesArray entries)) \<Rightarrow>
             (case those entries of
                Some cs' \<Rightarrow>
                  if 0 < n then meanRelativeScore (counted table) table (getObjective fs) cs'
                  else 0
              | None \<Rightarrow> 0)
         | _ \<Rightarrow> 0)"
    using t stats_averageRelativeScore_eq [OF t, of sj] by simp
qed


theorem averageRelativeScore_mean_of_counted_witness:
  "stats_averageRelativeScore (calculateExecutionStats exampleFs exampleSummary) = 2 \<and>
   averageOf (relativeScoreLoop [1 \<mapsto> 1000, 2 \<mapsto> 800] ObjMin
     [\<lparr>seed = 1, score = Some 500, execution_time = 1, error_message = None\<rparr>,
      \<lparr>seed = 2, score = Some 0, execution_time = 1, error_message = None\<rparr>,
      \<lparr>seed = 3, score = Some 7, execution_time = 1, error_message = None\<rparr>]) = 1"
  using averageRelativeScore_mean_of_counted [of "[1 \<mapsto> 1000, 2 \<mapsto> 800]" ObjMin
      "[\<lparr>seed = 1, score = Some 500, execution_time = 1, error_message = None\<rparr>,
      \<lparr>seed = 2, score = Some 0, execution_time = 1, error_message = None\<rparr>,
      \<lparr>seed = 3, score = Some 7, execution_time = 1, error_message = None\<rparr>]"
      exampleFs exampleSummary]
  by (auto simp add: getBestScores_exampleFs exampleSummary_def
      getObjective_exampleFs meanRelativeScore_def counted_def
      caseRelativeScore_def calculateRelativeScore_def)

subsection \<open>Recalculation over the history\<close>

text \<open>
  C5 does not hold of the code. The value the loop compares the new average with is
  the one \<open>findAll\<close> returns, which \<open>mergeWithSummary\<close> has recomputed from the summary
  and set to 0 unless \<open>case_count\<close> is positive; it is not the stored one. For a run
  whose summary has cases and no \<open>case_count\<close> the two differ by 2 in every pass: the
  first pass saves the record, leaving the directory as it was, and the second pass
  saves it again. And for a run whose stored average (9) is not the one of its summary
  (2), the pass saves nothing and the stored value stays.
\<close>

theorem recalculateAllRelativeScores_saves_unchanged_record:
  "recalculateAllRelativeScores 0 exampleFs noCountResults = (None, noCountResults, 1) \<and>
   recalculateAllRelativeScores 0 exampleFs
     (fst (snd (recalculateAllRelativeScores 0 exampleFs noCountResults))) =
       (None, noCountResults, 1) \<and>
   map (\<lambda>e. (exec_id e, averageRelativeScore e)) (findAll 0 exampleFs noCountResults) =
     [(''run-1'', Some 0)] \<and>
   infoFileOf noCountResults ''run-1'' = Some (InfoRecord noCountRun) \<and>
   averageRelativeScore noCountRun = Some 2 \<and>
   recalculateAllRelativeScores 0 exampleFs staleResults = (None, staleResults, 0) \<and>
   infoFileOf staleResults ''run-1'' =
     Some (InfoRecord (completedRun\<lparr>averageRelativeScore := Some 9\<rparr>)) \<and>
   map (\<lambda>e. (exec_id e, averageRelativeScore e)) (findAll 0 exampleFs staleResults) =
     [(''run-1'', Some 2)]"
  by code_simp

subsection \<open>The completed event\<close>

lemma updateStatus_not_found:
  "findById now fs rs i = Inr None \<Longrightarrow> updateStatus now fs i st rs = (None, rs)"
  by (simp add: updateStatus_def)

lemma updateExecutionStatus_not_found:
  "findById now (configFs s) (resultsDir s) i = Inr None \<Longrightarrow>
     updateExecutionStatus now i st s = (None, s)"
  by (simp add: updateExecutionStatus_def updateStatus_not_found)

lemma emitted_updateExecutionStatus:
  "\<exists>new. emitted (snd (updateExecutionStatus now i st s)) = emitted s @ new \<and>
     (\<forall>j st' rec. ExecutionStatus j st' rec \<in> set new \<longrightarrow> st' = st)"
  by (auto simp add: updateExecutionStatus_def emit_def Let_def
      split: prod.split option.split sum.split)

lemma emitted_finalizeExecution_other:
  "st \<noteq> COMPLETED \<Longrightarrow>
   \<exists>new. emitted (snd (finalizeExecution now i st s)) = emitted s @ new \<and>
     (\<forall>j rec. ExecutionStatus j COMPLETED rec \<notin> set new)"
proof (cases "findById now (configFs s) (resultsDir s) i")
  case (Inl err)
  then show ?thesis by (simp add: finalizeExecution_def)
next
  case (Inr r)
  assume st: "st \<noteq> COMPLETED"
  show ?thesis
  proof (cases r)
    case None
    with Inr show ?thesis
      by (simp add: finalizeExecution_def updateExecutionStatus_not_found)
  next
    case (Some found)
    with Inr st show ?thesis
      by (auto simp add: finalizeExecution_def emitLog_def emit_def Let_def split: option.split)
  qed
qed

lemma emitted_executePacherCatch:
  "\<exists>new. emitted (snd (executePacherCatch now i err s)) = emitted s @ new \<and>
     (\<forall>j rec. ExecutionStatus j COMPLETED rec \<notin> set new)"
proof -
  let ?s4 = "emitLog i (PacherError err)
      (emitLog i (if \<not> fst (restoreConfig (configFs s)) then RestoreFailedAfterError
                  else RestoredAfterError)
         ((emitLog i RestoringAfterError s)\<lparr>configFs := snd (restoreConfig (configFs s))\<rparr>))"
  have e: "executePacherCatch now i err s = finalizeExecution now i FAILED ?s4"
    by (simp add: executePacherCatch_def Let_def emitLog_def emit_def)
  obtain new where n: "emitted (snd (finalizeExecution now i FAILED ?s4)) = emitted ?s4 @ new"
      "\<forall>j rec. ExecutionStatus j COMPLETED rec \<notin> set new"
    using emitted_finalizeExecution_other [of FAILED now i ?s4] by auto
  show ?thesis
    using e n by (auto simp add: emitLog_def emit_def)
qed


lemma finalizeExecution_COMPLETED_cases:
  "(\<exists>found reread.
      findById now (configFs s) (resultsDir s) i = Inr (Some found) \<and>
      findById now (configFs s)
        (fst (snd (recalculateAllRelativeScores now (configFs s)
           (snd (save (found\<lparr>status := COMPLETED\<rparr>) (resultsDir s)))))) i = Inr (Some reread) \<and>
      fst (finalizeExecution now i COMPLETED s) = None \<and>
      configFs (snd (finalizeExecution now i COMPLETED s)) = configFs s \<and>
      resultsDir (snd (finalizeExecution now i COMPLETED s)) =
        fst (snd (recalculateAllRelativeScores now (configFs s)
           (snd (save (found\<lparr>status := COMPLETED\<rparr>) (resultsDir s))))) \<and>
      emitted (snd (finalizeExecution now i COMPLETED s)) = emitted s @
        [ExecutionLog i Recalculating,
         ExecutionLog i
           (case fst (recalculateAllRelativeScores now (configFs s)
              (snd (save (found\<lparr>status := COMPLETED\<rparr>) (resultsDir s)))) of
              None \<Rightarrow> RecalculationCompleted
            | Some e \<Rightarrow> RecalculationFailed e),
         ExecutionStatus i COMPLETED (reread\<lparr>status := COMPLETED\<rparr>),
         ExecutionProgress i (reread\<lparr>status := COMPLETED\<rparr>),
         ExecutionLog i (FinalResultPassed (acceptedCount reread) (totalCount reread))]) \<or>
   (\<exists>new. emitted (snd (finalizeExecution now i COMPLETED s)) = emitted s @ new \<and>
      (\<forall>j st rec. ExecutionStatus j st rec \<notin> set new))"
proof (cases "findById now (configFs s) (resultsDir s) i")
  case (Inl err)
  then show ?thesis by (simp add: finalizeExecution_def)
next
  case (Inr r)
  show ?thesis
  proof (cases r)
    case None
    with Inr show ?thesis
      by (simp add: finalizeExecution_def updateExecutionStatus_not_found)
  next
    case (Some found)
    show ?thesis
    proof (cases "fst (save (found\<lparr>status := COMPLETED\<rparr>) (resultsDir s))")
      case err: (Some err)
      with Inr Some show ?thesis
        by (simp add: finalizeExecution_def Let_def)
    next
      case ok: None
      let ?rc = "recalculateAllRelativeScores now (configFs s)
           (snd (save (found\<lparr>status := COMPLETED\<rparr>) (resultsDir s)))"
      show ?thesis
      proof (cases "findById now (configFs s) (fst (snd ?rc)) i")
        case (Inl err)
        with Inr Some ok show ?thesis
          by (simp add: finalizeExecution_def emitLog_def emit_def Let_def)
      next
        case r2: (Inr r')
        show ?thesis
        proof (cases r')
          case None
          with r2 Inr Some ok show ?thesis
            by (simp add: finalizeExecution_def emitLog_def emit_def Let_def)
        next
          case (Some reread)
          with r2 Inr \<open>r = Some found\<close> ok show ?thesis
            by (simp add: finalizeExecution_def emitLog_def emit_def Let_def)
        qed
      qed
    qed
  qed
qed


lemma executePacherResume_unfold:
  "executePacherResume now i result s =
     (let s3 = emitLog i (if \<not> fst (restoreConfig (configFs (emitLog i Restoring s)))
                          then RestoreFailed else Restored)
                 ((emitLog i Restoring s)\<lparr>configFs :=
                    snd (restoreConfig (configFs (emitLog i Restoring s)))\<rparr>);
          r = (if success result
               then finalizeExecution now i COMPLETED (emitLog i PacherCompleted s3)
               else finalizeExecution now i FAILED
                      (emitLog i (PacherFailed (errorMessage result)) s3))
      in case fst r of None \<Rightarrow> r | Some err \<Rightarrow> executePacherCatch now i err (snd r))"
  by (simp only: executePacherResume_def Let_def)

lemma emitted_executePacherResume:
  "\<exists>new. emitted (snd (executePacherResume now i result s)) = emitted s @ new \<and>
     (\<forall>j rec. ExecutionStatus j COMPLETED rec \<in> set new \<longrightarrow>
        j = i \<and> success result \<and> fst (executePacherResume now i result s) = None \<and>
        (\<exists>found reread.
           findById now (snd (restoreConfig (configFs s))) (resultsDir s) i = Inr (Some found) \<and>
           resultsDir (snd (executePacherResume now i result s)) =
             fst (snd (recalculateAllRelativeScores now (snd (restoreConfig (configFs s)))
               (snd (save (found\<lparr>status := COMPLETED\<rparr>) (resultsDir s))))) \<and>
           configFs (snd (executePacherResume now i result s)) = snd (restoreConfig (configFs s)) \<and>
           findById now (snd (restoreConfig (configFs s)))
             (resultsDir (snd (executePacherResume now i result s))) i = Inr (Some reread) \<and>
           rec = reread\<lparr>status := COMPLETED\<rparr> \<and>
           new =
             [ExecutionLog i Restoring,
              ExecutionLog i (if fst (restoreConfig (configFs s)) then Restored else RestoreFailed),
              ExecutionLog i PacherCompleted,
              ExecutionLog i Recalculating,
              ExecutionLog i
                (case fst (recalculateAllRelativeScores now (snd (restoreConfig (configFs s)))
                   (snd (save (found\<lparr>status := COMPLETED\<rparr>) (resultsDir s)))) of
                   None \<Rightarrow> RecalculationCompleted
                 | Some e \<Rightarrow> RecalculationFailed e),
              ExecutionStatus i COMPLETED rec,
              ExecutionProgress i rec,
              ExecutionLog i (FinalResultPassed (acceptedCount rec) (totalCount rec))]))"
proof -
  let ?s3 = "emitLog i (if \<not> fst (restoreConfig (configFs (emitLog i Restoring s)))
                          then RestoreFailed else Restored)
                 ((emitLog i Restoring s)\<lparr>configFs :=
                    snd (restoreConfig (configFs (emitLog i Restoring s)))\<rparr>)"
  have s3: "emitted ?s3 = emitted s @ [ExecutionLog i Restoring,
       ExecutionLog i (if fst (restoreConfig (configFs s)) then Restored else RestoreFailed)]"
    "configFs ?s3 = snd (restoreConfig (configFs s))" "resultsDir ?s3 = resultsDir s"
    by (simp_all add: emitLog_def emit_def)
  show ?thesis
  proof (cases "success result")
    case False
    let ?s4 = "emitLog i (PacherFailed (errorMessage result)) ?s3"
    let ?r = "finalizeExecution now i FAILED ?s4"
    obtain new1 where n1: "emitted (snd ?r) = emitted ?s4 @ new1"
        "\<forall>j rec. ExecutionStatus j COMPLETED rec \<notin> set new1"
      using emitted_finalizeExecution_other [of FAILED now i ?s4] by auto
    have s4: "emitted ?s4 = emitted ?s3 @ [ExecutionLog i (PacherFailed (errorMessage result))]"
      by (simp add: emitLog_def emit_def)
    show ?thesis
    proof (cases "fst ?r")
      case None
      then have "executePacherResume now i result s = ?r"
        using False by (simp add: executePacherResume_unfold Let_def)
      then show ?thesis using n1 s4 s3 False by auto
    next
      case (Some err)
      then have e: "executePacherResume now i result s = executePacherCatch now i err (snd ?r)"
        using False by (simp add: executePacherResume_unfold Let_def)
      obtain new2 where n2: "emitted (snd (executePacherCatch now i err (snd ?r))) =
          emitted (snd ?r) @ new2" "\<forall>j rec. ExecutionStatus j COMPLETED rec \<notin> set new2"
        using emitted_executePacherCatch [of now i err "snd ?r"] by auto
      show ?thesis using e n1 n2 s4 s3 False by auto
    qed
  next
    case True
    let ?s4 = "emitLog i PacherCompleted ?s3"
    let ?r = "finalizeExecution now i COMPLETED ?s4"
    have s4: "emitted ?s4 = emitted ?s3 @ [ExecutionLog i PacherCompleted]"
      "configFs ?s4 = snd (restoreConfig (configFs s))" "resultsDir ?s4 = resultsDir s"
      by (simp_all add: emitLog_def emit_def)
    from finalizeExecution_COMPLETED_cases [of now ?s4 i]
    consider
      (completed) found reread where
        "findById now (configFs ?s4) (resultsDir ?s4) i = Inr (Some found)"
        "findById now (configFs ?s4)
          (fst (snd (recalculateAllRelativeScores now (configFs ?s4)
             (snd (save (found\<lparr>status := COMPLETED\<rparr>) (resultsDir ?s4)))))) i = Inr (Some reread)"
        "fst ?r = None"
        "configFs (snd ?r) = configFs ?s4"
        "resultsDir (snd ?r) =
          fst (snd (recalculateAllRelativeScores now (configFs ?s4)
             (snd (save (found\<lparr>status := COMPLETED\<rparr>) (resultsDir ?s4)))))"
        "emitted (snd ?r) = emitted ?s4 @
          [ExecutionLog i Recalculating,
           ExecutionLog i
             (case fst (recalculateAllRelativeScores now (configFs ?s4)
                (snd (save (found\<lparr>status := COMPLETED\<rparr>) (resultsDir ?s4)))) of
                None \<Rightarrow> RecalculationCompleted
              | Some e \<Rightarrow> RecalculationFailed e),
           ExecutionStatus i COMPLETED (reread\<lparr>status := COMPLETED\<rparr>),
           ExecutionProgress i (reread\<lparr>status := COMPLETED\<rparr>),
           ExecutionLog i (FinalResultPassed (acceptedCount reread) (totalCount reread))]"
      | (silent) new1 where "emitted (snd ?r) = emitted ?s4 @ new1"
          "\<forall>j st rec. ExecutionStatus j st rec \<notin> set new1"
      by blast
    then show ?thesis
    proof cases
      case completed
      have e: "executePacherResume now i result s = ?r"
        using True completed(3) by (simp add: executePacherResume_unfold Let_def)
      show ?thesis
        unfolding e using completed True by (simp add: s4 s3)
    next
      case silent
      show ?thesis
      proof (cases "fst ?r")
        case None
        then have "executePacherResume now i result s = ?r"
          using True by (simp add: executePacherResume_unfold Let_def)
        then show ?thesis using silent s4 s3 by auto
      next
        case (Some err)
        then have e: "executePacherResume now i result s = executePacherCatch now i err (snd ?r)"
          using True by (simp add: executePacherResume_unfold Let_def)
        obtain new2 where n2: "emitted (snd (executePacherCatch now i err (snd ?r))) =
            emitted (snd ?r) @ new2" "\<forall>j rec. ExecutionStatus j COMPLETED rec \<notin> set new2"
          using emitted_executePacherCatch [of now i err "snd ?r"] by auto
        show ?thesis using e silent n2 s4 s3 by auto
      qed
    qed
  qed
qed


lemma emitted_onRejected:
  "\<exists>new. emitted (onRejected now i r) = emitted (snd r) @ new \<and>
     (\<forall>j rec. ExecutionStatus j COMPLETED rec \<notin> set new)"
proof (cases "fst r")
  case None
  then show ?thesis by (simp add: onRejected_def)
next
  case (Some err)
  then show ?thesis
    using emitted_updateExecutionStatus [of now i FAILED "snd r"]
    by (auto simp add: onRejected_def)
qed

lemma onRejected_None: "fst r = None \<Longrightarrow> onRejected now i r = snd r"
  by (simp add: onRejected_def)

lemma emitted_executePacherBegin:
  "\<exists>new. emitted (snd (executePacherBegin now i request sp s)) = emitted s @ new \<and>
     (\<forall>j rec. ExecutionStatus j COMPLETED rec \<notin> set new)"
proof (cases "updateExecutionStatus now i RUNNING s")
  case (Pair r s1)
  obtain new1 where n1: "emitted s1 = emitted s @ new1"
      "\<forall>j rec. ExecutionStatus j COMPLETED rec \<notin> set new1"
    using emitted_updateExecutionStatus [of now i RUNNING s] Pair by auto
  show ?thesis
  proof (cases r)
    case (Some err)
    obtain new2 where n2: "emitted (snd (executePacherCatch now i err s1)) = emitted s1 @ new2"
        "\<forall>j rec. ExecutionStatus j COMPLETED rec \<notin> set new2"
      using emitted_executePacherCatch [of now i err s1] by auto
    show ?thesis
      using Pair Some n1 n2 by (auto simp add: executePacherBegin_def)
  next
    case None
    show ?thesis
    proof (cases sp)
      case (Spawned child)
      with None Pair n1 show ?thesis
        by (auto simp add: executePacherBegin_def pmExecutePacherStart_def emitLog_def emit_def
            Let_def)
    next
      case (SpawnThrew message)
      let ?result = "\<lparr>success = False, exitCode = None, stderr = message,
                    errorMessage = Some (Message message)\<rparr>"
      let ?s3 = "(emitLog i ExecutionStarted s1)\<lparr>
          resultsDir := fst (snd (pmExecutePacherStart now request i sp
             (resultsDir (emitLog i ExecutionStarted s1),
              processManager (emitLog i ExecutionStarted s1)))),
          processManager := snd (snd (pmExecutePacherStart now request i sp
             (resultsDir (emitLog i ExecutionStarted s1),
              processManager (emitLog i ExecutionStarted s1))))\<rparr>"
      have e: "executePacherBegin now i request sp s = executePacherResume now i ?result ?s3"
        using None Pair SpawnThrew
        by (simp add: executePacherBegin_def pmExecutePacherStart_def Let_def)
      have s3: "emitted ?s3 = emitted s1 @ [ExecutionLog i ExecutionStarted]"
        by (simp add: emitLog_def emit_def)
      obtain new2 where n2:
          "emitted (snd (executePacherResume now i ?result ?s3)) = emitted ?s3 @ new2"
          "\<forall>j rec. ExecutionStatus j COMPLETED rec \<in> set new2 \<longrightarrow> success ?result"
        using emitted_executePacherResume [of now i ?result ?s3] by blast
      show ?thesis
        unfolding e using n1 n2 s3 by auto
    qed
  qed
qed

text \<open>
  C8, as the claim states it, fails: what the recalculation throws is caught and
  logged, and the event follows all the same. In the history below the summary of
  \<open>run-0\<close> has a \<open>cases\<close> that cannot be iterated; when the child of \<open>run-1\<close> exits with
  code 0, the pass over the history ends with a \<open>TypeError\<close> at \<open>run-0\<close> and never comes to
  \<open>run-2\<close>, whose stored average stays 0 where a pass that comes to it writes 2; the
  \<open>COMPLETED\<close> event of \<open>run-1\<close> is emitted after the log of the failure.
\<close>

theorem completed_event_after_aborted_recalculation_counterexample:
  "emitted abortedRecalculation =
     [ExecutionLog ''run-1'' Restoring, ExecutionLog ''run-1'' Restored,
      ExecutionLog ''run-1'' PacherCompleted, ExecutionLog ''run-1'' Recalculating,
      ExecutionLog ''run-1'' (RecalculationFailed TypeError),
      ExecutionStatus ''run-1'' COMPLETED completedRun,
      ExecutionProgress ''run-1'' completedRun,
      ExecutionLog ''run-1'' (FinalResultPassed (Some 1) (Some 2))] \<and>
   infoFileOf (resultsDir abortedRecalculation) ''run-2'' =
     Some (InfoRecord (noCountRun\<lparr>exec_id := ''run-2'', startTime := Some 100,
                                   averageRelativeScore := Some 0\<rparr>)) \<and>
   recalculateAllRelativeScores 7 (configFs abortedRecalculation)
       (AList.delete ''run-0'' (resultsDir abortedRecalculation)) =
     (None,
      AList.update ''run-2''
        \<lparr>info = Some (InfoRecord (noCountRun\<lparr>exec_id := ''run-2'', startTime := Some 100\<rparr>)),
         summary = Some (SummaryData noCountSummary)\<rparr>
        (AList.delete ''run-0'' (resultsDir abortedRecalculation)),
      1)"
  by code_simp

text \<open>
  C8, amended. Of the operations of the service, only the end of a child with exit
  code 0 emits a status event with \<open>COMPLETED\<close>, and it emits it for that run, once, and
  after the recalculation over the history has ended, be it by coming to the end of
  the history or by an exception, which the log line before the event tells: the
  events of the operation are the eight below. The record of the event is the one
  \<open>findById\<close> reads from the results directory as the recalculation left it, with the
  status \<open>COMPLETED\<close>.
\<close>

theorem completed_event_after_recalculation_ended:
  "\<exists>new. emitted (perform op s) = emitted s @ new \<and>
     (\<forall>j rec. ExecutionStatus j COMPLETED rec \<in> set new \<longrightarrow>
        (\<exists>now err produced found reread.
           op = ChildEnded now j (Close (Some 0)) err produced \<and>
           findById now (snd (restoreConfig (configFs s)))
             (saveTestResults j produced (resultsDir s)) j = Inr (Some found) \<and>
           resultsDir (perform op s) =
             fst (snd (recalculateAllRelativeScores now (snd (restoreConfig (configFs s)))
               (snd (save (found\<lparr>status := COMPLETED\<rparr>)
                      (saveTestResults j produced (resultsDir s)))))) \<and>
           findById now (configFs (perform op s)) (resultsDir (perform op s)) j =
             Inr (Some reread) \<and>
           rec = reread\<lparr>status := COMPLETED\<rparr> \<and>
           new =
             [ExecutionLog j Restoring,
              ExecutionLog j (if fst (restoreConfig (configFs s)) then Restored else RestoreFailed),
              ExecutionLog j PacherCompleted,
              ExecutionLog j Recalculating,
              ExecutionLog j
                (case fst (recalculateAllRelativeScores now (snd (restoreConfig (configFs s)))
                   (snd (save (found\<lparr>status := COMPLETED\<rparr>)
                          (saveTestResults j produced (resultsDir s))))) of
                   None \<Rightarrow> RecalculationCompleted
                 | Some e \<Rightarrow> RecalculationFailed e),
              ExecutionStatus j COMPLETED rec,
              ExecutionProgress j rec,
              ExecutionLog j (FinalResultPassed (acceptedCount rec) (totalCount rec))]))"
proof (cases op)
  case (StartExecution now i request)
  then show ?thesis
    by (simp add: startExecution_def emitLog_def emit_def Let_def)
next
  case (ExecutePacherStarted now i request sp)
  obtain new1 where n1: "emitted (snd (executePacherBegin now i request sp s)) = emitted s @ new1"
      "\<forall>j rec. ExecutionStatus j COMPLETED rec \<notin> set new1"
    using emitted_executePacherBegin [of now i request sp s] by auto
  obtain new2 where n2: "emitted (onRejected now i (executePacherBegin now i request sp s)) =
      emitted (snd (executePacherBegin now i request sp s)) @ new2"
      "\<forall>j rec. ExecutionStatus j COMPLETED rec \<notin> set new2"
    using emitted_onRejected [of now i "executePacherBegin now i request sp s"] by auto
  show ?thesis
    using ExecutePacherStarted n1 n2 by (auto simp add: executePacherStarted_def)
next
  case (StopExecution now i)
  show ?thesis
  proof (cases "map_of (activeProcesses (processManager s)) i")
    case None
    with StopExecution show ?thesis
      by (simp add: stopExecution_def killProcess_def)
  next
    case (Some child)
    let ?s4 = "emitLog i (if \<not> fst (restoreConfig (configFs s)) then RestoreFailed else Restored)
        ((emitLog i RestoringAfterStop (emitLog i KilledByUser
           (s\<lparr>processManager := snd (killProcess i (processManager s))\<rparr>)))\<lparr>configFs :=
             snd (restoreConfig (configFs s))\<rparr>)"
    have e: "stopExecution now i s = updateExecutionStatus now i CANCELLED ?s4"
      using Some by (simp add: stopExecution_def killProcess_def Let_def emitLog_def emit_def)
    obtain new1 where n1: "emitted (snd (updateExecutionStatus now i CANCELLED ?s4)) =
        emitted ?s4 @ new1" "\<forall>j st' rec. ExecutionStatus j st' rec \<in> set new1 \<longrightarrow> st' = CANCELLED"
      using emitted_updateExecutionStatus [of now i CANCELLED ?s4] by auto
    show ?thesis
      using StopExecution e n1 by (auto simp add: emitLog_def emit_def)
  qed
next
  case (DeleteExecution i)
  then show ?thesis
    by (simp add: deleteExecution_def emitLog_def emit_def)
next
  case (ChildEnded now i ev err produced)
  let ?ended = "pmChildEnded i ev err produced (resultsDir s, processManager s)"
  let ?s1 = "s\<lparr>resultsDir := fst (snd ?ended), processManager := snd (snd ?ended)\<rparr>"
  let ?r = "executePacherResume now i (fst ?ended) ?s1"
  have p: "perform op s = onRejected now i ?r"
    using ChildEnded by (simp add: childEnded_def Let_def)
  have s1: "emitted ?s1 = emitted s" "configFs ?s1 = configFs s"
    by simp_all
  have ok: "success (fst ?ended) \<Longrightarrow>
      ev = Close (Some 0) \<and> resultsDir ?s1 = saveTestResults i produced (resultsDir s)"
    by (cases ev) (auto simp add: pmChildEnded_def Let_def split: if_splits)
  from emitted_executePacherResume [of now i "fst ?ended" ?s1]
  obtain new1 where n1: "emitted (snd ?r) = emitted ?s1 @ new1"
    and c1: "\<And>j rec. ExecutionStatus j COMPLETED rec \<in> set new1 \<Longrightarrow>
        j = i \<and> success (fst ?ended) \<and> fst ?r = None \<and>
        (\<exists>found reread.
           findById now (snd (restoreConfig (configFs ?s1))) (resultsDir ?s1) i = Inr (Some found) \<and>
           resultsDir (snd ?r) =
             fst (snd (recalculateAllRelativeScores now (snd (restoreConfig (configFs ?s1)))
               (snd (save (found\<lparr>status := COMPLETED\<rparr>) (resultsDir ?s1))))) \<and>
           configFs (snd ?r) = snd (restoreConfig (configFs ?s1)) \<and>
           findById now (snd (restoreConfig (configFs ?s1))) (resultsDir (snd ?r)) i =
             Inr (Some reread) \<and>
           rec = reread\<lparr>status := COMPLETED\<rparr> \<and>
           new1 =
             [ExecutionLog i Restoring,
              ExecutionLog i (if fst (restoreConfig (configFs ?s1)) then Restored else RestoreFailed),
              ExecutionLog i PacherCompleted,
              ExecutionLog i Recalculating,
              ExecutionLog i
                (case fst (recalculateAllRelativeScores now (snd (restoreConfig (configFs ?s1)))
                   (snd (save (found\<lparr>status := COMPLETED\<rparr>) (resultsDir ?s1)))) of
                   None \<Rightarrow> RecalculationCompleted
                 | Some e \<Rightarrow> RecalculationFailed e),
              ExecutionStatus i COMPLETED rec,
              ExecutionProgress i rec,
              ExecutionLog i (FinalResultPassed (acceptedCount rec) (totalCount rec))])"
    by blast
  obtain new2 where n2: "emitted (onRejected now i ?r) = emitted (snd ?r) @ new2"
      "\<forall>j rec. ExecutionStatus j COMPLETED rec \<notin> set new2"
    using emitted_onRejected [of now i ?r] by auto
  show ?thesis
  proof (cases "\<exists>j rec. ExecutionStatus j COMPLETED rec \<in> set new1")
    case False
    then show ?thesis
      using p n1 n2 s1 by auto
  next
    case True
    then obtain j0 rec0 where m: "ExecutionStatus j0 COMPLETED rec0 \<in> set new1"
      by blast
    from c1 [OF m] have none: "fst ?r = None" and succ: "success (fst ?ended)"
      by simp_all
    have q: "perform op s = snd ?r"
      using p none by (simp add: onRejected_None)
    have "emitted (perform op s) = emitted s @ new1"
      using q n1 s1 by simp
    moreover have "\<exists>now err produced found reread.
           op = ChildEnded now j (Close (Some 0)) err produced \<and>
           findById now (snd (restoreConfig (configFs s)))
             (saveTestResults j produced (resultsDir s)) j = Inr (Some found) \<and>
           resultsDir (perform op s) =
             fst (snd (recalculateAllRelativeScores now (snd (restoreConfig (configFs s)))
               (snd (save (found\<lparr>status := COMPLETED\<rparr>)
                      (saveTestResults j produced (resultsDir s)))))) \<and>
           findById now (configFs (perform op s)) (resultsDir (perform op s)) j =
             Inr (Some reread) \<and>
           rec = reread\<lparr>status := COMPLETED\<rparr> \<and>
           new1 =
             [ExecutionLog j Restoring,
              ExecutionLog j (if fst (restoreConfig (configFs s)) then Restored else RestoreFailed),
              ExecutionLog j PacherCompleted,
              ExecutionLog j Recalculating,
              ExecutionLog j
                (case fst (recalculateAllRelativeScores now (snd (restoreConfig (configFs s)))
                   (snd (save (found\<lparr>status := COMPLETED\<rparr>)
                          (saveTestResults j produced (resultsDir s))))) of
                   None \<Rightarrow> RecalculationCompleted
                 | Some e \<Rightarrow> RecalculationFailed e),
              ExecutionStatus j COMPLETED rec,
              ExecutionProgress j rec,
              ExecutionLog j (FinalResultPassed (acceptedCount rec) (totalCount rec))]"
      if mem: "ExecutionStatus j COMPLETED rec \<in> set new1" for j rec
    proof -
      from c1 [OF mem] obtain found reread where
        j: "j = i" and
        f: "findById now (snd (restoreConfig (configFs ?s1))) (resultsDir ?s1) i = Inr (Some found)" and
        rd: "resultsDir (snd ?r) =
             fst (snd (recalculateAllRelativeScores now (snd (restoreConfig (configFs ?s1)))
               (snd (save (found\<lparr>status := COMPLETED\<rparr>) (resultsDir ?s1)))))" and
        cf: "configFs (snd ?r) = snd (restoreConfig (configFs ?s1))" and
        rr: "findById now (snd (restoreConfig (configFs ?s1))) (resultsDir (snd ?r)) i =
             Inr (Some reread)" and
        rec: "rec = reread\<lparr>status := COMPLETED\<rparr>" and
        nw: "new1 =
             [ExecutionLog i Restoring,
              ExecutionLog i (if fst (restoreConfig (configFs ?s1)) then Restored else RestoreFailed),
              ExecutionLog i PacherCompleted,
              ExecutionLog i Recalculating,
              ExecutionLog i
                (case fst (recalculateAllRelativeScores now (snd (restoreConfig (configFs ?s1)))
                   (snd (save (found\<lparr>status := COMPLETED\<rparr>) (resultsDir ?s1)))) of
                   None \<Rightarrow> RecalculationCompleted
                 | Some e \<Rightarrow> RecalculationFailed e),
              ExecutionStatus i COMPLETED rec,
              ExecutionProgress i rec,
              ExecutionLog i (FinalResultPassed (acceptedCount rec) (totalCount rec))]"
        by blast
      have ev: "ev = Close (Some 0)"
        using ok [OF succ] by (rule conjunct1)
      have rs: "resultsDir ?s1 = saveTestResults i produced (resultsDir s)"
        using ok [OF succ] by (rule conjunct2)
      show ?thesis
        apply (rule exI [of _ now], rule exI [of _ err], rule exI [of _ produced])
        apply (rule exI [of _ found], rule exI [of _ reread])
        using ChildEnded j ev f rd cf rr rec nw unfolding q rs s1 by simp
    qed
    ultimately show ?thesis by blast
  qed
qed


theorem completed_event_after_recalculation_ended_witness:
  "emitted (perform (ChildEnded 7 ''run-1'' (Close (Some 0)) []
              (Some (SummaryData exampleSummary))) runningSystem) =
     [ExecutionLog ''run-1'' Restoring, ExecutionLog ''run-1'' Restored,
      ExecutionLog ''run-1'' PacherCompleted, ExecutionLog ''run-1'' Recalculating,
      ExecutionLog ''run-1'' RecalculationCompleted,
      ExecutionStatus ''run-1'' COMPLETED completedRun,
      ExecutionProgress ''run-1'' completedRun,
      ExecutionLog ''run-1'' (FinalResultPassed (Some 1) (Some 2))] \<and>
   (\<exists>reread.
      findById 7
        (configFs (perform (ChildEnded 7 ''run-1'' (Close (Some 0)) []
                     (Some (SummaryData exampleSummary))) runningSystem))
        (resultsDir (perform (ChildEnded 7 ''run-1'' (Close (Some 0)) []
                       (Some (SummaryData exampleSummary))) runningSystem)) ''run-1'' =
          Inr (Some reread) \<and>
      completedRun = reread\<lparr>status := COMPLETED\<rparr>)"
proof -
  let ?op = "ChildEnded 7 ''run-1'' (Close (Some 0)) [] (Some (SummaryData exampleSummary))"
  let ?evs = "[ExecutionLog ''run-1'' Restoring, ExecutionLog ''run-1'' Restored,
      ExecutionLog ''run-1'' PacherCompleted, ExecutionLog ''run-1'' Recalculating,
      ExecutionLog ''run-1'' RecalculationCompleted,
      ExecutionStatus ''run-1'' COMPLETED completedRun,
      ExecutionProgress ''run-1'' completedRun,
      ExecutionLog ''run-1'' (FinalResultPassed (Some 1) (Some 2))]"
  have e: "emitted (perform ?op runningSystem) = ?evs"
    by code_simp
  have z: "emitted runningSystem = []"
    by (simp add: runningSystem_def)
  from completed_event_after_recalculation_ended [of ?op runningSystem] e z
  have "ExecutionStatus ''run-1'' COMPLETED completedRun \<in> set ?evs \<longrightarrow>
        (\<exists>now reread.
           now = (7 :: int) \<and>
           findById now (configFs (perform ?op runningSystem))
             (resultsDir (perform ?op runningSystem)) ''run-1'' = Inr (Some reread) \<and>
           completedRun = reread\<lparr>status := COMPLETED\<rparr>)"
    by auto
  then show ?thesis
    using e by simp
qed

subsection \<open>The configuration file around a run\<close>

lemma restoreConfig_backup:
  "backupFile fs = Some c \<Longrightarrow>
     configFile (snd (restoreConfig fs)) = Some c \<and> backupFile (snd (restoreConfig fs)) = Some c"
  by (simp add: restoreConfig_def)

lemma configFs_updateExecutionStatus [simp]:
  "configFs (snd (updateExecutionStatus now i st s)) = configFs s"
  by (simp add: updateExecutionStatus_def emit_def Let_def split: prod.split option.split sum.split)

lemma processManager_updateExecutionStatus [simp]:
  "processManager (snd (updateExecutionStatus now i st s)) = processManager s"
  by (simp add: updateExecutionStatus_def emit_def Let_def split: prod.split option.split sum.split)

lemma configFs_finalizeExecution [simp]:
  "configFs (snd (finalizeExecution now i st s)) = configFs s"
  by (simp add: finalizeExecution_def emit_def emitLog_def Let_def split: option.split sum.split)

lemma processManager_finalizeExecution [simp]:
  "processManager (snd (finalizeExecution now i st s)) = processManager s"
  by (simp add: finalizeExecution_def emit_def emitLog_def Let_def split: option.split sum.split)

lemma configFs_executePacherCatch [simp]:
  "configFs (snd (executePacherCatch now i err s)) = snd (restoreConfig (configFs s))"
  by (simp add: executePacherCatch_def emit_def emitLog_def Let_def)

lemma processManager_executePacherCatch [simp]:
  "processManager (snd (executePacherCatch now i err s)) = processManager s"
  by (simp add: executePacherCatch_def emit_def emitLog_def Let_def)

lemma restoreConfig_twice [simp]:
  "snd (restoreConfig (snd (restoreConfig fs))) = snd (restoreConfig fs)"
  by (simp add: restoreConfig_def split: option.split)

lemma configFs_executePacherResume [simp]:
  "configFs (snd (executePacherResume now i result s)) = snd (restoreConfig (configFs s))"
  by (simp add: executePacherResume_def emit_def emitLog_def Let_def split: option.split)

lemma configFs_onRejected [simp]: "configFs (onRejected now i r) = configFs (snd r)"
  by (simp add: onRejected_def split: option.split)

lemma configFs_childEnded [simp]:
  "configFs (childEnded now i ev err produced s) = snd (restoreConfig (configFs s))"
  by (simp add: childEnded_def Let_def)

lemma configFs_startExecution [simp]:
  "configFs (startExecution now i request s) =
     snd (updateConfigForTest (testCaseCount request) (startSeed request) (configFs s))"
  by (simp add: startExecution_def emit_def emitLog_def Let_def)

lemma updateConfigForTest_backup:
  "configFile fs = Some c \<Longrightarrow> backupFile (snd (updateConfigForTest n k fs)) = Some c"
  by (simp add: updateConfigForTest_def backupConfig_def Let_def)

lemma executePacherStarted_cases:
  "(configFs (executePacherStarted now i request sp s) = configFs s \<and>
      (\<exists>child. sp = Spawned child \<and>
         map_of (activeProcesses (processManager (executePacherStarted now i request sp s))) i
           = Some child)) \<or>
   configFs (executePacherStarted now i request sp s) = snd (restoreConfig (configFs s))"
proof (cases "updateExecutionStatus now i RUNNING s")
  case (Pair r s1)
  have c1: "configFs s1 = configFs s"
    using configFs_updateExecutionStatus [of now i RUNNING s] Pair by simp
  show ?thesis
  proof (cases r)
    case (Some err)
    with Pair c1 show ?thesis
      by (simp add: executePacherStarted_def executePacherBegin_def)
  next
    case None
    show ?thesis
    proof (cases sp)
      case (Spawned child)
      with None Pair c1 show ?thesis
        by (simp add: executePacherStarted_def executePacherBegin_def pmExecutePacherStart_def
            onRejected_def emitLog_def emit_def Let_def update_conv')
    next
      case (SpawnThrew message)
      with None Pair c1 show ?thesis
        by (simp add: executePacherStarted_def executePacherBegin_def pmExecutePacherStart_def
            emitLog_def emit_def Let_def)
    qed
  qed
qed

lemma configFs_stopExecution:
  "configFs (snd (stopExecution now i s)) =
     (if map_of (activeProcesses (processManager s)) i = None then configFs s
      else snd (restoreConfig (configFs s)))"
  by (simp add: stopExecution_def killProcess_def emitLog_def emit_def Let_def split: option.split)




subsection \<open>The statuses of a stopped run\<close>

text \<open>
  C2 does not hold of the code. \<open>stopExecution\<close> kills the child and sets the run to
  \<open>CANCELLED\<close>; the \<open>close\<close> event of the killed child then resolves the promise
  \<open>executePacher\<close> waits for with a failure, and \<open>finalizeExecution\<close> sets the same run to
  \<open>FAILED\<close>: two terminal statuses for one run id.
\<close>

theorem cancelled_run_set_to_failed:
  "fst (stopExecution 2 ''run-a'' startedA) = None \<and>
   statusesOf ''run-a'' (emitted (snd (stopExecution 2 ''run-a'' startedA))) = [RUNNING, CANCELLED] \<and>
   statusesOf ''run-a'' (emitted stoppedThenClosedA) = [RUNNING, CANCELLED, FAILED] \<and>
   findById 4 (configFs stoppedThenClosedA) (resultsDir stoppedThenClosedA) ''run-a'' =
     Inr (Some \<lparr>exec_id = ''run-a'', status = FAILED, startTime = Some 1,
                 comment = Some ''baseline'', averageScore = None, averageRelativeScore = None,
                 acceptedCount = None, totalCount = Some 100, maxExecutionTime = None\<rparr>)"
  by code_simp

end
